theory Spec2Isabelle
  imports Complex_Main "HOL-Library.Multiset"
begin

section \<open>Data model\<close>

text \<open>
  JavaScript numbers are modelled as \<open>real\<close>: the properties below are the exact
  arithmetic laws the code is written for. Integer-valued fields that the code only ever
  assigns integers to (\<open>zIndex\<close>) are \<open>int\<close>.
\<close>

record point =
  pt_x :: real
  pt_y :: real

record rect =
  rc_x :: real
  rc_y :: real
  rc_width :: real
  rc_height :: real


text \<open>
  A layer (\<open>Layer\<close> of \<open>types.ts\<close>). \<open>layer_image\<close> stands for the reference to the decoded
  raster; the optional fields \<open>flipH\<close>, \<open>flipV\<close>, \<open>cropMode\<close> read as \<open>False\<close> when
  absent, \<open>blendArea\<close> as 0 (\<open>layer.blendArea ?? 0\<close>), and an absent \<open>cropBounds\<close> is
  \<open>None\<close>.
\<close>

record layer =
  layer_id :: string
  layer_image :: nat
  imageId :: string
  name :: string
  layer_x :: real
  layer_y :: real
  layer_width :: real
  layer_height :: real
  originalWidth :: real
  originalHeight :: real
  rotation :: real
  zIndex :: int
  blendMode :: string
  opacity :: real
  visible :: bool
  flipH :: bool
  flipV :: bool
  cropMode :: bool
  cropBounds :: "rect option"
  blendArea :: real

section \<open>Handles (CanvasLayers.getHandles)\<close>

datatype handle = Hn | Hne | He | Hse | Hs | Hsw | Hw | Hnw | Hrot

text \<open>\<open>handle.includes('e')\<close> and its three siblings, on the handle keys.\<close>

fun includes_e :: "handle \<Rightarrow> bool" where
  "includes_e Hne = True" | "includes_e He = True" | "includes_e Hse = True" | "includes_e _ = False"

fun includes_w :: "handle \<Rightarrow> bool" where
  "includes_w Hnw = True" | "includes_w Hw = True" | "includes_w Hsw = True" | "includes_w _ = False"

fun includes_n :: "handle \<Rightarrow> bool" where
  "includes_n Hn = True" | "includes_n Hne = True" | "includes_n Hnw = True" | "includes_n _ = False"

fun includes_s :: "handle \<Rightarrow> bool" where
  "includes_s Hs = True" | "includes_s Hse = True" | "includes_s Hsw = True" | "includes_s _ = False"

text \<open>The table \<open>localHandles\<close>, for half extents \<open>halfW\<close>, \<open>halfH\<close> and the viewport zoom.\<close>

fun localHandles :: "real \<Rightarrow> real \<Rightarrow> real \<Rightarrow> handle \<Rightarrow> point" where
  "localHandles halfW halfH z Hn = \<lparr> pt_x = 0, pt_y = - halfH \<rparr>"
| "localHandles halfW halfH z Hne = \<lparr> pt_x = halfW, pt_y = - halfH \<rparr>"
| "localHandles halfW halfH z He = \<lparr> pt_x = halfW, pt_y = 0 \<rparr>"
| "localHandles halfW halfH z Hse = \<lparr> pt_x = halfW, pt_y = halfH \<rparr>"
| "localHandles halfW halfH z Hs = \<lparr> pt_x = 0, pt_y = halfH \<rparr>"
| "localHandles halfW halfH z Hsw = \<lparr> pt_x = - halfW, pt_y = halfH \<rparr>"
| "localHandles halfW halfH z Hw = \<lparr> pt_x = - halfW, pt_y = 0 \<rparr>"
| "localHandles halfW halfH z Hnw = \<lparr> pt_x = - halfW, pt_y = - halfH \<rparr>"
| "localHandles halfW halfH z Hrot = \<lparr> pt_x = 0, pt_y = - halfH - 20 / z \<rparr>"

text \<open>
  \<open>getHandles(layer)\<close>: the world position of every handle. The first component of the
  inner triple is the handle centre, the other two the half extents; in crop mode they
  bound the visible crop rectangle.
\<close>

definition handleFrame :: "layer \<Rightarrow> point \<times> real \<times> real" where
  "handleFrame l =
     (let layerCenterX = layer_x l + layer_width l / 2;
          layerCenterY = layer_y l + layer_height l / 2;
          rad = rotation l * pi / 180;
          c = cos rad;
          s = sin rad
      in case cropBounds l of
           Some cb \<Rightarrow>
             if cropMode l \<and> originalWidth l \<noteq> 0 then
               (let layerScaleX = layer_width l / originalWidth l;
                    layerScaleY = layer_height l / originalHeight l;
                    cropRectW = rc_width cb * layerScaleX;
                    cropRectH = rc_height cb * layerScaleY;
                    effectiveCropX = (if flipH l then originalWidth l - (rc_x cb + rc_width cb)
                                      else rc_x cb);
                    effectiveCropY = (if flipV l then originalHeight l - (rc_y cb + rc_height cb)
                                      else rc_y cb);
                    cropCenterX_local =
                      (- layer_width l / 2) + ((effectiveCropX + rc_width cb / 2) * layerScaleX);
                    cropCenterY_local =
                      (- layer_height l / 2) + ((effectiveCropY + rc_height cb / 2) * layerScaleY)
                in (\<lparr> pt_x = layerCenterX + (cropCenterX_local * c - cropCenterY_local * s),
                       pt_y = layerCenterY + (cropCenterX_local * s + cropCenterY_local * c) \<rparr>,
                    cropRectW / 2, cropRectH / 2))
             else (\<lparr> pt_x = layerCenterX, pt_y = layerCenterY \<rparr>,
                   layer_width l / 2, layer_height l / 2)
         | None \<Rightarrow> (\<lparr> pt_x = layerCenterX, pt_y = layerCenterY \<rparr>,
                    layer_width l / 2, layer_height l / 2))"

definition getHandles :: "real \<Rightarrow> layer \<Rightarrow> handle \<Rightarrow> point" where
  "getHandles z l h =
     (let rad = rotation l * pi / 180;
          c = cos rad;
          s = sin rad;
          (handleCenter, halfW, halfH) = handleFrame l;
          p = localHandles halfW halfH z h
      in \<lparr> pt_x = pt_x handleCenter + (pt_x p * c - pt_y p * s),
            pt_y = pt_y handleCenter + (pt_x p * s + pt_y p * c) \<rparr>)"

section \<open>Resize and crop interaction (CanvasInteractions)\<close>

datatype mode = NoInteraction | Resizing | Rotating

text \<open>\<open>interaction.transformOrigin\<close>: the geometry of the layer when the drag started.\<close>

record transformOrigin =
  o_x :: real
  o_y :: real
  o_width :: real
  o_height :: real
  o_rotation :: real
  o_centerX :: real
  o_centerY :: real
  o_originalWidth :: real
  o_originalHeight :: real
  o_cropBounds :: "rect option"

text \<open>
  The part of \<open>this.interaction\<close> that a resize reads and writes. The layer being
  transformed is one object, mutated in place by every drag event, so the record holds
  its current value.
\<close>

record interaction =
  i_mode :: mode
  transformingLayer :: "layer option"
  transformOrigin :: "transformOrigin option"
  dragStart :: point
  resizeHandle :: "handle option"
  resizeAnchor :: point
  isCtrlPressed :: bool

fun oppositeHandleKey :: "handle \<Rightarrow> handle" where
  "oppositeHandleKey Hn = Hs"
| "oppositeHandleKey Hs = Hn"
| "oppositeHandleKey He = Hw"
| "oppositeHandleKey Hw = He"
| "oppositeHandleKey Hnw = Hse"
| "oppositeHandleKey Hse = Hnw"
| "oppositeHandleKey Hne = Hsw"
| "oppositeHandleKey Hsw = Hne"
| "oppositeHandleKey Hrot = Hrot"

text \<open>
  \<open>startLayerTransform(layer, handle, worldCoords)\<close>; \<open>z\<close> is the viewport zoom that
  \<open>getHandles\<close> reads. (The table \<open>oppositeHandleKey\<close> has no entry for \<open>rot\<close>; the
  branch that uses it is never taken for that handle.)
\<close>

definition startLayerTransform :: "real \<Rightarrow> layer \<Rightarrow> handle \<Rightarrow> point \<Rightarrow> interaction \<Rightarrow> interaction" where
  "startLayerTransform z l h worldCoords i =
     (let i1 = i\<lparr> transformingLayer := Some l,
                  transformOrigin := Some
                    \<lparr> o_x = layer_x l, o_y = layer_y l,
                      o_width = layer_width l, o_height = layer_height l,
                      o_rotation = rotation l,
                      o_centerX = layer_x l + layer_width l / 2,
                      o_centerY = layer_y l + layer_height l / 2,
                      o_originalWidth = originalWidth l,
                      o_originalHeight = originalHeight l,
                      o_cropBounds = cropBounds l \<rparr>,
                  dragStart := worldCoords \<rparr>
      in if h = Hrot then i1\<lparr> i_mode := Rotating \<rparr>
         else i1\<lparr> i_mode := Resizing,
                   resizeHandle := Some h,
                   resizeAnchor := getHandles z l (oppositeHandleKey h) \<rparr>)"

text \<open>
  The crop branch of \<open>resizeLayerFromHandle\<close>, statement group by statement group, in
  the source's order. First the pointer movement since the start of the drag, rotated
  into the layer's frame, flip-corrected and scaled to image space:
  \<open>(delta_image_x, delta_image_y)\<close>.
\<close>

definition imageDelta :: "transformOrigin \<Rightarrow> bool \<Rightarrow> bool \<Rightarrow> point \<Rightarrow> real \<Rightarrow> real \<Rightarrow> real \<times> real" where
  "imageDelta o' isFlippedH isFlippedV dragStart' mouseX mouseY =
     (let rad = o_rotation o' * pi / 180;
          c = cos rad;
          s = sin rad;
          dragStartX_local = pt_x dragStart' - o_centerX o';
          dragStartY_local = pt_y dragStart' - o_centerY o';
          mouseX_local = mouseX - o_centerX o';
          mouseY_local = mouseY - o_centerY o';
          deltaX_world = mouseX_local - dragStartX_local;
          deltaY_world = mouseY_local - dragStartY_local;
          mouseDeltaX_local0 = deltaX_world * c + deltaY_world * s;
          mouseDeltaY_local0 = deltaY_world * c - deltaX_world * s;
          mouseDeltaX_local = (if isFlippedH then mouseDeltaX_local0 * (- 1) else mouseDeltaX_local0);
          mouseDeltaY_local = (if isFlippedV then mouseDeltaY_local0 * (- 1) else mouseDeltaY_local0);
          screenToImageScaleX = o_originalWidth o' / o_width o';
          screenToImageScaleY = o_originalHeight o' / o_height o'
      in (mouseDeltaX_local * screenToImageScaleX, mouseDeltaY_local * screenToImageScaleY))"

text \<open>\<open>handle?.includes(c)\<close>: false when there is no handle.\<close>

definition has :: "handle option \<Rightarrow> (handle \<Rightarrow> bool) \<Rightarrow> bool" where
  "has h f = (case h of None \<Rightarrow> False | Some k \<Rightarrow> f k)"

text \<open>The four \<open>if (handle?.includes(..))\<close> blocks that move the edges.\<close>

definition edgeW :: "handle option \<Rightarrow> bool \<Rightarrow> real \<Rightarrow> rect \<Rightarrow> rect" where
  "edgeW h isFlippedH delta_image_x b =
     (if has h includes_w then
        (if isFlippedH then b\<lparr> rc_width := rc_width b + delta_image_x \<rparr>
         else b\<lparr> rc_x := rc_x b + delta_image_x, rc_width := rc_width b - delta_image_x \<rparr>)
      else b)"

definition edgeE :: "handle option \<Rightarrow> bool \<Rightarrow> real \<Rightarrow> rect \<Rightarrow> rect" where
  "edgeE h isFlippedH delta_image_x b =
     (if has h includes_e then
        (if isFlippedH
         then b\<lparr> rc_x := rc_x b + delta_image_x, rc_width := rc_width b - delta_image_x \<rparr>
         else b\<lparr> rc_width := rc_width b + delta_image_x \<rparr>)
      else b)"

definition edgeN :: "handle option \<Rightarrow> bool \<Rightarrow> real \<Rightarrow> rect \<Rightarrow> rect" where
  "edgeN h isFlippedV delta_image_y b =
     (if has h includes_n then
        (if isFlippedV then b\<lparr> rc_height := rc_height b + delta_image_y \<rparr>
         else b\<lparr> rc_y := rc_y b + delta_image_y, rc_height := rc_height b - delta_image_y \<rparr>)
      else b)"

definition edgeS :: "handle option \<Rightarrow> bool \<Rightarrow> real \<Rightarrow> rect \<Rightarrow> rect" where
  "edgeS h isFlippedV delta_image_y b =
     (if has h includes_s then
        (if isFlippedV
         then b\<lparr> rc_y := rc_y b + delta_image_y, rc_height := rc_height b - delta_image_y \<rparr>
         else b\<lparr> rc_height := rc_height b + delta_image_y \<rparr>)
      else b)"

text \<open>
  The six clamping statements (``Clamp crop bounds to stay within the original image and
  maintain minimum size''); \<open>ocb\<close> is \<open>o.cropBounds\<close>.
\<close>

definition clampMinWidth :: "handle option \<Rightarrow> rect \<Rightarrow> rect \<Rightarrow> rect" where
  "clampMinWidth h ocb b =
     (if rc_width b < 1 then
        (if has h includes_w then b\<lparr> rc_x := rc_x ocb + rc_width ocb - 1 \<rparr> else b)
          \<lparr> rc_width := 1 \<rparr>
      else b)"

definition clampMinHeight :: "handle option \<Rightarrow> rect \<Rightarrow> rect \<Rightarrow> rect" where
  "clampMinHeight h ocb b =
     (if rc_height b < 1 then
        (if has h includes_n then b\<lparr> rc_y := rc_y ocb + rc_height ocb - 1 \<rparr> else b)
          \<lparr> rc_height := 1 \<rparr>
      else b)"

definition clampLeft :: "rect \<Rightarrow> rect" where
  "clampLeft b = (if rc_x b < 0 then b\<lparr> rc_width := rc_width b + rc_x b, rc_x := 0 \<rparr> else b)"

definition clampTop :: "rect \<Rightarrow> rect" where
  "clampTop b = (if rc_y b < 0 then b\<lparr> rc_height := rc_height b + rc_y b, rc_y := 0 \<rparr> else b)"

definition clampRight :: "real \<Rightarrow> rect \<Rightarrow> rect" where
  "clampRight ow b = (if rc_x b + rc_width b > ow then b\<lparr> rc_width := ow - rc_x b \<rparr> else b)"

definition clampBottom :: "real \<Rightarrow> rect \<Rightarrow> rect" where
  "clampBottom oh b = (if rc_y b + rc_height b > oh then b\<lparr> rc_height := oh - rc_y b \<rparr> else b)"

text \<open>
  The new crop bounds for handle \<open>h\<close>, from the origin \<open>o\<close> with crop bounds \<open>ocb\<close>, the
  flip state of the layer and the (grid-snapped) pointer position.
\<close>

definition cropFromHandle ::
  "transformOrigin \<Rightarrow> rect \<Rightarrow> bool \<Rightarrow> bool \<Rightarrow> handle option \<Rightarrow> point \<Rightarrow> real \<Rightarrow> real \<Rightarrow> rect" where
  "cropFromHandle o' ocb isFlippedH isFlippedV h dragStart' mouseX mouseY =
     (case imageDelta o' isFlippedH isFlippedV dragStart' mouseX mouseY of
        (delta_image_x, delta_image_y) \<Rightarrow>
          clampBottom (o_originalHeight o')
            (clampRight (o_originalWidth o')
              (clampTop
                (clampLeft
                  (clampMinHeight h ocb
                    (clampMinWidth h ocb
                      (edgeS h isFlippedV delta_image_y
                        (edgeN h isFlippedV delta_image_y
                          (edgeE h isFlippedH delta_image_x
                            (edgeW h isFlippedH delta_image_x ocb))))))))))"

text \<open>\<open>Math.sign(v) || 1\<close>.\<close>

definition signOr1 :: "real \<Rightarrow> real" where
  "signOr1 v = (if sgn v = 0 then 1 else sgn v)"

text \<open>
  The transform branch of \<open>resizeLayerFromHandle\<close>: the resized frame of layer \<open>l\<close> for
  handle \<open>h\<close> and anchor \<open>anchor\<close>.
\<close>

definition transformFromHandle ::
  "transformOrigin \<Rightarrow> handle option \<Rightarrow> point \<Rightarrow> bool \<Rightarrow> real \<Rightarrow> real \<Rightarrow> layer \<Rightarrow> layer" where
  "transformFromHandle o' h anchor isShiftPressed mouseX mouseY l =
     (let rad = o_rotation o' * pi / 180;
          c = cos rad;
          s = sin rad;
          vecX = mouseX - pt_x anchor;
          vecY = mouseY - pt_y anchor;
          localVecX0 = vecX * c + vecY * s;
          localVecY0 = vecY * c - vecX * s;
          signX = (if has h includes_e then 1 else (if has h includes_w then - 1 else 0));
          signY = (if has h includes_s then 1 else (if has h includes_n then - 1 else 0));
          localVecX = (if signX = 0 then o_width o' else localVecX0 * signX);
          localVecY = (if signY = 0 then o_height o' else localVecY0 * signY);
          originalAspectRatio = o_width o' / o_height o';
          (newWidth1, newHeight1) =
            (if isShiftPressed then
               (if \<bar>localVecX\<bar> > \<bar>localVecY\<bar> * originalAspectRatio
                then (localVecX, signOr1 localVecY * \<bar>localVecX\<bar> / originalAspectRatio)
                else (signOr1 localVecX * \<bar>localVecY\<bar> * originalAspectRatio, localVecY))
             else (localVecX, localVecY));
          newWidth = (if newWidth1 < 10 then 10 else newWidth1);
          newHeight = (if newHeight1 < 10 then 10 else newHeight1);
          deltaW = newWidth - o_width o';
          deltaH = newHeight - o_height o';
          shiftX = (deltaW / 2) * signX;
          shiftY = (deltaH / 2) * signY;
          worldShiftX = shiftX * c - shiftY * s;
          worldShiftY = shiftX * s + shiftY * c;
          newCenterX = o_centerX o' + worldShiftX;
          newCenterY = o_centerY o' + worldShiftY
      in l\<lparr> layer_width := newWidth, layer_height := newHeight,
             layer_x := newCenterX - newWidth / 2,
             layer_y := newCenterY - newHeight / 2 \<rparr>)"

text \<open>
  \<open>resizeLayerFromHandle(worldCoords, isShiftPressed)\<close>. \<open>snapToGrid\<close> comes from
  \<open>utils/CommonUtils\<close>, which is not among the source files: it is a parameter. \<open>z\<close> is
  the viewport zoom. The function returns at once when there is no layer or no origin.
\<close>

definition resizeLayerFromHandle ::
  "(real \<Rightarrow> real) \<Rightarrow> real \<Rightarrow> point \<Rightarrow> bool \<Rightarrow> interaction \<Rightarrow> interaction" where
  "resizeLayerFromHandle snapToGrid z worldCoords isShiftPressed i =
     (case transformingLayer i of
        None \<Rightarrow> i
      | Some l \<Rightarrow>
          (let snapThreshold = 10 / z;
               snap = (\<lambda>m. if isCtrlPressed i
                           then (if \<bar>m - snapToGrid m\<bar> < snapThreshold then snapToGrid m else m)
                           else m);
               mouseX = snap (pt_x worldCoords);
               mouseY = snap (pt_y worldCoords)
           in case transformOrigin i of
                None \<Rightarrow> i
              | Some o' \<Rightarrow>
                  (case (if cropMode l \<and> o_originalWidth o' \<noteq> 0 \<and> o_originalHeight o' \<noteq> 0
                         then o_cropBounds o' else None) of
                     Some ocb \<Rightarrow>
                       i\<lparr> transformingLayer := Some (l\<lparr> cropBounds := Some
                            (cropFromHandle o' ocb (flipH l) (flipV l) (resizeHandle i)
                               (dragStart i) mouseX mouseY) \<rparr>) \<rparr>
                   | None \<Rightarrow>
                       i\<lparr> transformingLayer := Some
                            (transformFromHandle o' (resizeHandle i) (resizeAnchor i)
                               isShiftPressed mouseX mouseY l) \<rparr>)))"

text \<open>
  The crop-bounds invariant of the data model: inside
  \<open>[0, originalWidth] \<times> [0, originalHeight]\<close>, with width and height at least 1.
\<close>

definition cropBoundsOk :: "real \<Rightarrow> real \<Rightarrow> rect \<Rightarrow> bool" where
  "cropBoundsOk ow oh b \<longleftrightarrow>
     0 \<le> rc_x b \<and> 0 \<le> rc_y b \<and> 1 \<le> rc_width b \<and> 1 \<le> rc_height b
     \<and> rc_x b + rc_width b \<le> ow \<and> rc_y b + rc_height b \<le> oh"


section \<open>Viewport: zoom about the cursor (CanvasInteractions.performZoomOperation)\<close>



section \<open>Layer store with object identity (CanvasLayers)\<close>

text \<open>
  The z-order operations depend on which layer \<^emph>\<open>object\<close> is which: \<open>indexOf\<close>,
  \<open>includes\<close>, and assignments to \<open>layer.zIndex\<close> that every holder of the object sees.
  So here a layer object is a reference into a heap, \<open>canvas.layers\<close> and the selection
  are lists of references, and \<open>nextRef\<close> is the next unused reference, taken by every
  object literal that creates a layer.
\<close>

type_synonym ref = nat

record store =
  heap :: "ref \<Rightarrow> layer"
  canvas_layers :: "ref list"
  selectedLayers :: "ref list"
  nextRef :: ref
  internalClipboard :: "layer list"
  lastMousePosition :: point
  outputAreaBounds :: rect

datatype js_error = TypeError | ValidationError

text \<open>
  JavaScript arrays of layers, where an element may be \<open>undefined\<close> (\<open>None\<close>).
  \<open>Array.prototype.indexOf\<close> gives -1 for a missing element; reading outside the array
  gives \<open>undefined\<close>; writing at a negative index sets a property that is not an element;
  writing at or beyond the length extends the array.
\<close>

fun indexOf :: "'a list \<Rightarrow> 'a \<Rightarrow> int" where
  "indexOf [] x = - 1"
| "indexOf (y # ys) x =
     (if x = y then 0 else (let i = indexOf ys x in if i < 0 then - 1 else i + 1))"

definition arrayGet :: "'a option list \<Rightarrow> int \<Rightarrow> 'a option" where
  "arrayGet arr i = (if 0 \<le> i \<and> i < int (length arr) then arr ! nat i else None)"

definition arraySet :: "'a option list \<Rightarrow> int \<Rightarrow> 'a option \<Rightarrow> 'a option list" where
  "arraySet arr i v =
     (if i < 0 then arr
      else if i < int (length arr) then arr[nat i := v]
      else arr @ replicate (nat i - length arr) None @ [v])"

text \<open>\<open>[arr[i], arr[j]] = [arr[j], arr[i]]\<close>: both reads come first.\<close>

definition swapElements :: "'a option list \<Rightarrow> int \<Rightarrow> int \<Rightarrow> 'a option list" where
  "swapElements arr i j =
     (let ai = arrayGet arr i; aj = arrayGet arr j
      in arraySet (arraySet arr i aj) j ai)"

datatype direction = Up | Down

record moveOptions =
  opt_direction :: "direction option"
  opt_toIndex :: "int option"

text \<open>
  The two \<open>sorted.forEach\<close> bodies of \<open>moveLayers\<close>, and the loops over the sorted
  selected indices.
\<close>

definition moveUpStep :: "int list \<Rightarrow> ref option list \<Rightarrow> int \<Rightarrow> ref option list" where
  "moveUpStep selectedIndices allLayers index' =
     (let targetIndex = index' + 1
      in if targetIndex < int (length allLayers) \<and> targetIndex \<notin> set selectedIndices
         then swapElements allLayers index' targetIndex else allLayers)"

definition moveDownStep :: "int list \<Rightarrow> ref option list \<Rightarrow> int \<Rightarrow> ref option list" where
  "moveDownStep selectedIndices allLayers index' =
     (let targetIndex = index' - 1
      in if targetIndex \<ge> 0 \<and> targetIndex \<notin> set selectedIndices
         then swapElements allLayers index' targetIndex else allLayers)"

definition moveByDirection :: "direction \<Rightarrow> ref list \<Rightarrow> ref list \<Rightarrow> ref option list" where
  "moveByDirection d layersToMove layers' =
     (let allLayers = map Some layers';
          selectedIndices = remdups (map (indexOf layers') layersToMove)
      in case d of
           Up \<Rightarrow> foldl (moveUpStep selectedIndices) allLayers (rev (sort selectedIndices))
         | Down \<Rightarrow> foldl (moveDownStep selectedIndices) allLayers (sort selectedIndices))"

text \<open>
  The \<open>toIndex\<close> branch: the \<open>for\<close> loop over \<open>displayedLayers\<close> from index \<open>i\<close> on,
  with the accumulated \<open>reorderedFinal\<close> and the flag \<open>inserted\<close>; then the insertion
  at the end when the loop never met \<open>toIndex\<close>.
\<close>

fun reorderLoop :: "int \<Rightarrow> ref list \<Rightarrow> int \<Rightarrow> ref list \<Rightarrow> ref list \<Rightarrow> bool \<Rightarrow> ref list \<times> bool" where
  "reorderLoop toIndex layersToMove i [] reorderedFinal inserted = (reorderedFinal, inserted)"
| "reorderLoop toIndex layersToMove i (currentLayer # rest) reorderedFinal inserted =
     (let (r1, ins1) = (if i = toIndex then (reorderedFinal @ layersToMove, True)
                        else (reorderedFinal, inserted));
          r2 = (if currentLayer \<notin> set layersToMove then r1 @ [currentLayer] else r1)
      in reorderLoop toIndex layersToMove (i + 1) rest r2 ins1)"

definition moveToIndex :: "(ref \<Rightarrow> layer) \<Rightarrow> int \<Rightarrow> ref list \<Rightarrow> ref list \<Rightarrow> ref list" where
  "moveToIndex h toIndex layersToMove layers' =
     (let displayedLayers = sort_key (\<lambda>r. - zIndex (h r)) layers';
          (reorderedFinal, inserted) = reorderLoop toIndex layersToMove 0 displayedLayers [] False
      in if inserted then reorderedFinal else reorderedFinal @ layersToMove)"

text \<open>
  \<open>finalLayers.forEach((layer, index) => layer.zIndex = ...)\<close>, from index \<open>i\<close> on.
  Assigning to a property of \<open>undefined\<close> throws.
\<close>

fun assignZIndex :: "(nat \<Rightarrow> int) \<Rightarrow> nat \<Rightarrow> ref option list \<Rightarrow> (ref \<Rightarrow> layer) \<Rightarrow> js_error + (ref \<Rightarrow> layer)" where
  "assignZIndex f i [] h = Inr h"
| "assignZIndex f i (None # rest) h = Inl TypeError"
| "assignZIndex f i (Some r # rest) h =
     assignZIndex f (Suc i) rest (h(r := (h r)\<lparr> zIndex := f i \<rparr>))"

text \<open>
  \<open>moveLayers(layersToMove, options)\<close>. The stable \<open>Array.prototype.sort\<close> with the
  comparator \<open>a.zIndex - b.zIndex\<close> is \<open>sort_key\<close> on \<open>zIndex\<close>.
\<close>

definition moveLayers :: "ref list \<Rightarrow> moveOptions \<Rightarrow> store \<Rightarrow> js_error + store" where
  "moveLayers layersToMove options s =
     (if layersToMove = [] then Inr s
      else
        (case (case opt_direction options of
                 Some d \<Rightarrow> Some (moveByDirection d layersToMove (canvas_layers s))
               | None \<Rightarrow>
                   (case opt_toIndex options of
                      Some toIndex \<Rightarrow>
                        Some (map Some (moveToIndex (heap s) toIndex layersToMove (canvas_layers s)))
                    | None \<Rightarrow> None)) of
           None \<Rightarrow> Inr s
         | Some finalLayers \<Rightarrow>
             (let totalLayers = length finalLayers;
                  f = (\<lambda>index'. if opt_toIndex options \<noteq> None
                                then int totalLayers - 1 - int index' else int index')
              in case assignZIndex f 0 finalLayers (heap s) of
                   Inl e \<Rightarrow> Inl e
                 | Inr h' \<Rightarrow>
                     Inr (s\<lparr> heap := h',
                             canvas_layers := sort_key (\<lambda>r. zIndex (h' r)) (map the finalLayers) \<rparr>))))"

text \<open>
  \<open>fuseLayers\<close>. The bounding box of the selected layers: the four rotated corners of
  each, and the minimum and maximum over all of them. The source folds \<open>Math.min\<close> and
  \<open>Math.max\<close> from \<open>Infinity\<close> and \<open>-Infinity\<close>; the fold here starts from the first
  corner, which is the same as soon as there is one, and \<open>fuseLayers\<close> only gets here with
  two layers or more.
\<close>

definition layerCorners :: "layer \<Rightarrow> point list" where
  "layerCorners l =
     (let centerX = layer_x l + layer_width l / 2;
          centerY = layer_y l + layer_height l / 2;
          rad = rotation l * pi / 180;
          c = cos rad;
          s = sin rad;
          halfW = layer_width l / 2;
          halfH = layer_height l / 2
      in map (\<lambda>(px, py). \<lparr> pt_x = centerX + (px * c - py * s),
                            pt_y = centerY + (px * s + py * c) \<rparr>)
           [(- halfW, - halfH), (halfW, - halfH), (halfW, halfH), (- halfW, halfH)])"

definition minOf :: "real list \<Rightarrow> real" where
  "minOf vs = foldl min (hd vs) (tl vs)"

definition maxOf :: "real list \<Rightarrow> real" where
  "maxOf vs = foldl max (hd vs) (tl vs)"

text \<open>\<open>{minX, minY, fusedWidth, fusedHeight}\<close>, the last two after \<open>Math.ceil\<close>.\<close>

definition fusedBounds :: "layer list \<Rightarrow> real \<times> real \<times> int \<times> int" where
  "fusedBounds ls =
     (let corners = concat (map layerCorners ls);
          minX = minOf (map pt_x corners);
          minY = minOf (map pt_y corners);
          maxX = maxOf (map pt_x corners);
          maxY = maxOf (map pt_y corners)
      in (minX, minY, \<lceil>maxX - minX\<rceil>, \<lceil>maxY - minY\<rceil>))"

text \<open>\<open>this.canvas.layers.forEach((layer, index) => layer.zIndex = index)\<close>, from \<open>i\<close> on.\<close>

fun renumber :: "nat \<Rightarrow> ref list \<Rightarrow> (ref \<Rightarrow> layer) \<Rightarrow> (ref \<Rightarrow> layer)" where
  "renumber i [] h = h"
| "renumber i (r # rest) h = renumber (Suc i) rest (h(r := (h r)\<lparr> zIndex := int i \<rparr>))"

text \<open>
  What the world outside gives \<open>fuseLayers\<close> and \<open>addLayerWithImage\<close>: whether a 2D
  context can be had and the fused image loads, the two identifiers \<open>generateUUID\<close>
  returns, and the reference of the new image.
\<close>

record environment =
  contextAvailable :: bool
  imageLoads :: bool
  uuid_imageId :: string
  uuid_id :: string
  newImage :: nat

datatype fuse_error = NeedTwoLayers | InvalidDimensions | FuseFailed

text \<open>The object literal \<open>fusedLayer\<close>.\<close>

definition makeFusedLayer :: "environment \<Rightarrow> real \<Rightarrow> real \<Rightarrow> int \<Rightarrow> int \<Rightarrow> int \<Rightarrow> layer" where
  "makeFusedLayer env minX minY fusedWidth fusedHeight minZIndex =
     \<lparr> layer_id = uuid_id env, layer_image = newImage env,
       imageId = uuid_imageId env, name = ''Fused Layer'',
       layer_x = minX, layer_y = minY,
       layer_width = real_of_int fusedWidth, layer_height = real_of_int fusedHeight,
       originalWidth = real_of_int fusedWidth, originalHeight = real_of_int fusedHeight,
       rotation = 0, zIndex = minZIndex, blendMode = ''normal'', opacity = 1,
       visible = True, flipH = False, flipV = False, cropMode = False,
       cropBounds = None, blendArea = 0 \<rparr>"

text \<open>
  \<open>fuseLayers()\<close>. Each \<open>Inl\<close> is one of the three error notifications, after which the
  layer store is as it was. The history snapshots taken on the way, the drawing of the
  selected layers onto the temporary canvas and the saving of the image do not touch the
  store of layers.
\<close>

definition fuseLayers :: "environment \<Rightarrow> store \<Rightarrow> fuse_error + store" where
  "fuseLayers env s =
     (if length (selectedLayers s) < 2 then Inl NeedTwoLayers
      else
        (case fusedBounds (map (heap s) (selectedLayers s)) of
           (minX, minY, fusedWidth, fusedHeight) \<Rightarrow>
             if fusedWidth \<le> 0 \<or> fusedHeight \<le> 0 then Inl InvalidDimensions
             else if \<not> contextAvailable env then Inl FuseFailed
             else if \<not> imageLoads env then Inl FuseFailed
             else
               (let minZIndex = Min (set (map (\<lambda>r. zIndex (heap s r)) (selectedLayers s)));
                    fusedLayer = makeFusedLayer env minX minY fusedWidth fusedHeight minZIndex;
                    fusedRef = nextRef s;
                    h1 = (heap s)(fusedRef := fusedLayer);
                    kept = filter (\<lambda>r. r \<notin> set (selectedLayers s)) (canvas_layers s);
                    sorted' = sort_key (\<lambda>r. zIndex (h1 r)) (kept @ [fusedRef]);
                    h2 = renumber 0 sorted' h1
                in Inr (s\<lparr> heap := h2, canvas_layers := sorted',
                           selectedLayers := [fusedRef], nextRef := Suc fusedRef \<rparr>))))"













text \<open>
  The layer store is well formed when no object occurs twice in \<open>canvas.layers\<close> and
  every object in it has been allocated. \<open>zIndices\<close> lists the \<open>zIndex\<close> of the layers
  in store order.
\<close>

definition storeOk :: "store \<Rightarrow> bool" where
  "storeOk s \<longleftrightarrow> distinct (canvas_layers s) \<and> list_all (\<lambda>r. r < nextRef s) (canvas_layers s)"

definition zIndices :: "store \<Rightarrow> int list" where
  "zIndices s = map (\<lambda>r. zIndex (heap s r)) (canvas_layers s)"

text \<open>
  An array of layers is a rearrangement of \<open>canvas.layers\<close>: no hole, and the same
  objects as often.
\<close>

definition permOf :: "ref list \<Rightarrow> ref option list \<Rightarrow> bool" where
  "permOf layers' arr \<longleftrightarrow> (\<exists>p. arr = map Some p \<and> mset p = mset layers')"

text \<open>
  The z-order invariant: with \<open>N\<close> layers in the store, their \<open>zIndex\<close> values are
  pairwise different and form the set \<open>{0, ..., N - 1}\<close>.
\<close>

definition contiguous :: "store \<Rightarrow> bool" where
  "contiguous s \<longleftrightarrow>
     distinct (zIndices s) \<and> set (zIndices s) = {0 ..< int (length (canvas_layers s))}"

section \<open>Processed-image cache: keys and the best stale match (CanvasLayers)\<close>

text \<open>
  Cache keys are strings. \<open>Number.prototype.toString\<close>, which the template literals
  apply to the numbers of a layer, is the parameter \<open>numToString\<close>.
\<close>

definition joinWith :: "string \<Rightarrow> string list \<Rightarrow> string" where
  "joinWith sep parts = (case parts of [] \<Rightarrow> [] | p # ps \<Rightarrow> foldl (\<lambda>acc q. acc @ sep @ q) p ps)"

definition cropKeyOf :: "(real \<Rightarrow> string) \<Rightarrow> layer \<Rightarrow> string" where
  "cropKeyOf numToString l =
     (case cropBounds l of
        Some cb \<Rightarrow> joinWith '','' [numToString (rc_x cb), numToString (rc_y cb),
                                   numToString (rc_width cb), numToString (rc_height cb)]
      | None \<Rightarrow> ''nocrop'')"

definition getProcessedImageCacheKey :: "(real \<Rightarrow> string) \<Rightarrow> layer \<Rightarrow> string" where
  "getProcessedImageCacheKey numToString l =
     joinWith ''_'' [layer_id l, numToString (blendArea l), cropKeyOf numToString l,
                     numToString (layer_width l), numToString (layer_height l)]"

text \<open>\<open>key.startsWith(p)\<close> and \<open>key.split(c)\<close> for a separator of one character.\<close>

definition startsWith :: "string \<Rightarrow> string \<Rightarrow> bool" where
  "startsWith key p = (take (length p) key = p)"

fun splitOn :: "char \<Rightarrow> string \<Rightarrow> string list" where
  "splitOn c [] = [[]]"
| "splitOn c (x # xs) =
     (if x = c then [] # splitOn c xs
      else (case splitOn c xs of [] \<Rightarrow> [[x]] | w # ws \<Rightarrow> (x # w) # ws))"

text \<open>
  \<open>parseInt(s)\<close> with no radix: leading white space is skipped, then an optional sign,
  then \<open>0x\<close> or \<open>0X\<close> switches to radix 16, then the longest run of digits is read.
  \<open>None\<close> is \<open>NaN\<close>: no digit at all.
\<close>

definition isWhiteSpace :: "char \<Rightarrow> bool" where
  "isWhiteSpace c = (of_char c \<in> {9, 10, 11, 12, 13, 32 :: nat})"

definition digitValue :: "nat \<Rightarrow> char \<Rightarrow> nat option" where
  "digitValue radix c =
     (let n = of_char c :: nat;
          v = (if 48 \<le> n \<and> n \<le> 57 then Some (n - 48)
               else if 97 \<le> n \<and> n \<le> 102 then Some (n - 87)
               else if 65 \<le> n \<and> n \<le> 70 then Some (n - 55)
               else None)
      in case v of Some d \<Rightarrow> (if d < radix then Some d else None) | None \<Rightarrow> None)"

definition parseDigits :: "nat \<Rightarrow> string \<Rightarrow> int option" where
  "parseDigits radix str =
     (let ds = takeWhile (\<lambda>c. digitValue radix c \<noteq> None) str
      in if ds = [] then None
         else Some (foldl (\<lambda>acc c. acc * int radix + int (the (digitValue radix c))) 0 ds))"

definition parseInt :: "string \<Rightarrow> int option" where
  "parseInt str =
     (let s0 = dropWhile isWhiteSpace str;
          (sign, s1) = (case s0 of
                          c # rest \<Rightarrow> if c = CHR ''-'' then (- 1, rest)
                                      else if c = CHR ''+'' then (1, rest) else (1, s0)
                        | [] \<Rightarrow> (1, s0));
          (radix, s2) = (if startsWith s1 ''0x'' \<or> startsWith s1 ''0X''
                         then (16, drop 2 s1) else (10, s1))
      in map_option (\<lambda>v. sign * v) (parseDigits radix s2))"

text \<open>
  The score of one cache entry in \<open>_drawLayer\<close>. A score is a JavaScript number, and
  \<open>None\<close> is \<open>NaN\<close>: a blend area that does not parse makes every later sum \<open>NaN\<close>.
\<close>

definition scoreEntry :: "string \<Rightarrow> real \<Rightarrow> string \<Rightarrow> string \<Rightarrow> real option" where
  "scoreEntry currentCacheKey currentBlendArea currentCropKey key =
     (let keyParts = splitOn CHR ''_'' key
      in if length keyParts \<ge> 3 then
           (let cacheBlendArea = parseInt (keyParts ! 1);
                cacheCropKey = keyParts ! 2;
                score1 = (case cacheBlendArea of
                            None \<Rightarrow> None
                          | Some a \<Rightarrow>
                              if real_of_int a = currentBlendArea then Some 100
                              else Some (0 - \<bar>real_of_int a - currentBlendArea\<bar>));
                score2 = map_option
                           (\<lambda>v. if cacheCropKey = currentCropKey then v + 200 else v - 150) score1;
                score3 = map_option (\<lambda>v. if key = currentCacheKey then v + 50 else v) score2
            in score3)
         else Some 0)"

text \<open>
  The loop over \<open>processedImageCache.entries()\<close>, a \<open>Map\<close> in insertion order: one step,
  on the pair \<open>(bestScore, bestMatchingCache)\<close>, and the whole loop from \<open>(-1, null)\<close>.
  \<open>NaN > bestScore\<close> is false.
\<close>

definition bestMatchStep ::
  "string \<Rightarrow> string \<Rightarrow> real \<Rightarrow> string \<Rightarrow> real \<times> 'img option \<Rightarrow> string \<times> 'img \<Rightarrow> real \<times> 'img option" where
  "bestMatchStep layerId currentCacheKey currentBlendArea currentCropKey best entry =
     (case entry of
        (key, image') \<Rightarrow>
          if startsWith key (layerId @ ''_'') then
            (case scoreEntry currentCacheKey currentBlendArea currentCropKey key of
               Some score \<Rightarrow> if score > fst best then (score, Some image') else best
             | None \<Rightarrow> best)
          else best)"

definition bestMatchingCache ::
  "string \<Rightarrow> string \<Rightarrow> real \<Rightarrow> string \<Rightarrow> (string \<times> 'img) list \<Rightarrow> 'img option" where
  "bestMatchingCache layerId currentCacheKey currentBlendArea currentCropKey cache =
     snd (foldl (bestMatchStep layerId currentCacheKey currentBlendArea currentCropKey)
            (- 1, None) cache)"



text \<open>
  The six conditions \<open>_drawLayer\<close> computes for a layer, and the two it derives:
  \<open>shouldRenderLive\<close> and the test \<open>isTransformingScale || isTransformingScaleSet ||
  isWheelScaling\<close> under which the best stale match is looked for and used.
\<close>

record drawFlags =
  isTransformingCropBounds :: bool
  isTransformingScale :: bool
  isThisLayerBeingAdjusted :: bool
  isTransformingCropBoundsSet :: bool
  isTransformingScaleSet :: bool
  isWheelScaling :: bool

definition shouldRenderLive :: "drawFlags \<Rightarrow> bool" where
  "shouldRenderLive f \<longleftrightarrow>
     isTransformingCropBounds f \<or> isTransformingScale f \<or> isThisLayerBeingAdjusted f
     \<or> isTransformingCropBoundsSet f \<or> isTransformingScaleSet f \<or> isWheelScaling f"

definition scaling :: "drawFlags \<Rightarrow> bool" where
  "scaling f \<longleftrightarrow> isTransformingScale f \<or> isTransformingScaleSet f \<or> isWheelScaling f"

text \<open>
  What \<open>_drawLayer\<close> draws: the exact processed image, the best stale match, a live
  render of the blend area, or the plain (cropped) image. \<open>bestMatch\<close> is the result of the
  ranking loop, which only runs while scaling.
\<close>

datatype 'img drawn = DrawProcessed 'img | DrawBestMatch 'img | DrawLiveBlendArea | DrawImage

definition chooseDrawn :: "'img option \<Rightarrow> 'img option \<Rightarrow> drawFlags \<Rightarrow> bool \<Rightarrow> 'img drawn" where
  "chooseDrawn processedImage bestMatch f needsBlendAreaEffect =
     (case (if shouldRenderLive f then None else processedImage) of
        Some img \<Rightarrow> DrawProcessed img
      | None \<Rightarrow>
          (case (if scaling f then bestMatch else None) of
             Some img \<Rightarrow> DrawBestMatch img
           | None \<Rightarrow>
               if needsBlendAreaEffect \<and> shouldRenderLive f \<and> \<not> isWheelScaling f
               then DrawLiveBlendArea else DrawImage))"

section \<open>Processed-image cache: debounced creation (CanvasLayers)\<close>

text \<open>
  Timers are part of the model: \<open>window.setTimeout\<close> puts a callback with its due time
  into the queue of the event loop and returns a positive handle; \<open>clearTimeout\<close> removes
  it; the event loop runs a due callback to completion before anything else happens.
  Time is in milliseconds. A callback is one of the three closures the code passes to
  \<open>setTimeout\<close>, with the variables it captures: the layer object, the cache key, and
  for a transform end the kind of transform and the layer id.
\<close>

datatype transformType = Crop | Scale | Wheel

datatype callback =
    DebouncedCreation ref string
  | ExecuteTransform ref string transformType string
  | DelayedTransform ref string transformType string string

text \<open>
  The state of \<open>CanvasLayers\<close> that the cache code reads and writes, with the layer
  objects, the queue of timers and the clock. A processed image is represented by the
  state of the layer it was rendered from. \<open>createdLog\<close> records every call of
  \<open>createProcessedImage\<close>: when, and for which layer. \<open>resizingLayer\<close> is the id of
  \<open>interaction.transformingLayer\<close> while \<open>interaction.mode\<close> is \<open>'resizing'\<close>. A JavaScript
  \<open>Map\<close> is an association list in insertion order, a \<open>Set\<close> of strings a list.
\<close>

record compositor =
  c_heap :: "ref \<Rightarrow> layer"
  c_layers :: "ref list"
  processedImageCache :: "(string \<times> layer) list"
  processedImageDebounceTimers :: "(string \<times> nat) list"
  layersAdjustingBlendArea :: "string list"
  layersTransformingCropBounds :: "string list"
  layersTransformingScale :: "string list"
  layersWheelScaling :: "string list"
  resizingLayer :: "string option"
  timerQueue :: "(nat \<times> nat \<times> callback) list"
  nextHandle :: nat
  now :: nat
  createdLog :: "(nat \<times> string) list"

definition mapGet :: "('k \<times> 'v) list \<Rightarrow> 'k \<Rightarrow> 'v option" where
  "mapGet m k = map_of m k"

definition mapSet :: "('k \<times> 'v) list \<Rightarrow> 'k \<Rightarrow> 'v \<Rightarrow> ('k \<times> 'v) list" where
  "mapSet m k v =
     (if k \<in> fst ` set m then map (\<lambda>(k', v'). if k' = k then (k', v) else (k', v')) m
      else m @ [(k, v)])"

definition mapDelete :: "('k \<times> 'v) list \<Rightarrow> 'k \<Rightarrow> ('k \<times> 'v) list" where
  "mapDelete m k = filter (\<lambda>(k', v'). k' \<noteq> k) m"

definition setAdd :: "'a list \<Rightarrow> 'a \<Rightarrow> 'a list" where
  "setAdd xs x = (if x \<in> set xs then xs else xs @ [x])"

definition setDelete :: "'a list \<Rightarrow> 'a \<Rightarrow> 'a list" where
  "setDelete xs x = filter (\<lambda>y. y \<noteq> x) xs"

definition setTimeout :: "callback \<Rightarrow> nat \<Rightarrow> compositor \<Rightarrow> nat \<times> compositor" where
  "setTimeout cb delay s =
     (nextHandle s,
      s\<lparr> timerQueue := timerQueue s @ [(nextHandle s, now s + delay, cb)],
         nextHandle := Suc (nextHandle s) \<rparr>)"

definition clearTimeout :: "nat \<Rightarrow> compositor \<Rightarrow> compositor" where
  "clearTimeout h s = s\<lparr> timerQueue := filter (\<lambda>(h', due, cb). h' \<noteq> h) (timerQueue s) \<rparr>"

text \<open>\<open>if (existingTimer) clearTimeout(existingTimer)\<close>: a handle is truthy unless 0.\<close>

definition clearExisting :: "string \<Rightarrow> compositor \<Rightarrow> compositor" where
  "clearExisting key s =
     (case mapGet (processedImageDebounceTimers s) key of
        Some h \<Rightarrow> if h \<noteq> 0 then clearTimeout h s else s
      | None \<Rightarrow> s)"

definition PROCESSED_IMAGE_DEBOUNCE_DELAY :: nat where
  "PROCESSED_IMAGE_DEBOUNCE_DELAY = 1000"

text \<open>\<open>scheduleProcessedImageCreation(layer, cacheKey)\<close>.\<close>

definition scheduleProcessedImageCreation :: "ref \<Rightarrow> string \<Rightarrow> compositor \<Rightarrow> compositor" where
  "scheduleProcessedImageCreation r cacheKey s =
     (let layerId = layer_id (c_heap s r);
          s1 = clearExisting layerId s
      in case setTimeout (DebouncedCreation r cacheKey) PROCESSED_IMAGE_DEBOUNCE_DELAY s1 of
           (timer, s2) \<Rightarrow>
             s2\<lparr> processedImageDebounceTimers :=
                    mapSet (processedImageDebounceTimers s2) layerId timer \<rparr>)"

text \<open>
  \<open>getProcessedImage(layer)\<close>: the cached image or \<open>null\<close>, and the state, in which a
  creation may have been scheduled.
\<close>

definition getProcessedImage :: "(real \<Rightarrow> string) \<Rightarrow> ref \<Rightarrow> compositor \<Rightarrow> layer option \<times> compositor" where
  "getProcessedImage numToString r s =
     (let l = c_heap s r;
          needsBlendAreaEffect = blendArea l > 0;
          needsCropEffect = (cropBounds l \<noteq> None \<and> originalWidth l \<noteq> 0 \<and> originalHeight l \<noteq> 0);
          cacheKey = getProcessedImageCacheKey numToString l
      in if \<not> needsBlendAreaEffect \<and> \<not> needsCropEffect then (None, s)
         else if layer_id l \<in> set (layersAdjustingBlendArea s) then (None, s)
         else if layer_id l \<in> set (layersWheelScaling s)
           then (mapGet (processedImageCache s) cacheKey, s)
         else (case mapGet (processedImageCache s) cacheKey of
                 Some img \<Rightarrow> (Some img, s)
               | None \<Rightarrow> (None, scheduleProcessedImageCreation r cacheKey s)))"

text \<open>
  \<open>_drawLayer(ctx, layer)\<close>: what is drawn, and the state after the call of
  \<open>getProcessedImage\<close> in it. Every layer of the model has its image.
\<close>

definition flagsOf :: "compositor \<Rightarrow> layer \<Rightarrow> drawFlags" where
  "flagsOf s l =
     \<lparr> isTransformingCropBounds = (resizingLayer s = Some (layer_id l) \<and> cropMode l),
       isTransformingScale = (resizingLayer s = Some (layer_id l) \<and> \<not> cropMode l),
       isThisLayerBeingAdjusted = (layer_id l \<in> set (layersAdjustingBlendArea s)),
       isTransformingCropBoundsSet = (layer_id l \<in> set (layersTransformingCropBounds s)),
       isTransformingScaleSet = (layer_id l \<in> set (layersTransformingScale s)),
       isWheelScaling = (layer_id l \<in> set (layersWheelScaling s)) \<rparr>"

definition drawLayer :: "(real \<Rightarrow> string) \<Rightarrow> ref \<Rightarrow> compositor \<Rightarrow> layer drawn \<times> compositor" where
  "drawLayer numToString r s =
     (let l = c_heap s r;
          f = flagsOf s l
      in case getProcessedImage numToString r s of
           (processedImage, s1) \<Rightarrow>
             (chooseDrawn processedImage
                (if scaling f
                 then bestMatchingCache (layer_id l) (getProcessedImageCacheKey numToString l)
                        (blendArea l) (cropKeyOf numToString l) (processedImageCache s1)
                 else None)
                f (blendArea l > 0),
              s1))"

text \<open>\<open>_drawLayers\<close>: the visible layers in the order of their \<open>zIndex\<close>.\<close>

definition drawLayers :: "(real \<Rightarrow> string) \<Rightarrow> ref list \<Rightarrow> compositor \<Rightarrow> compositor" where
  "drawLayers numToString rs s =
     foldl (\<lambda>s' r. if visible (c_heap s' r) then snd (drawLayer numToString r s') else s') s
       (sort_key (\<lambda>r. zIndex (c_heap s r)) rs)"

text \<open>
  Modelled from the spec: \<open>canvas.render()\<close> and the renderer behind it are not among
  the source files. Section 2: the compositor ``renders current Layer Store''; section
  4.4 has \<open>drawLayer\<close> run for each layer on every render. So a render draws the layers of
  the store through \<open>_drawLayers\<close>.
\<close>

definition render :: "(real \<Rightarrow> string) \<Rightarrow> compositor \<Rightarrow> compositor" where
  "render numToString s = drawLayers numToString (c_layers s) s"

text \<open>
  \<open>createProcessedImage(layer)\<close>: \<open>null\<close> without a 2D context (\<open>ctxOk\<close> false). The
  call is logged either way.
\<close>

definition createProcessedImage :: "bool \<Rightarrow> ref \<Rightarrow> compositor \<Rightarrow> layer option \<times> compositor" where
  "createProcessedImage ctxOk r s =
     (if ctxOk then Some (c_heap s r) else None,
      s\<lparr> createdLog := createdLog s @ [(now s, layer_id (c_heap s r))] \<rparr>)"

definition transformingSet :: "transformType \<Rightarrow> compositor \<Rightarrow> string list" where
  "transformingSet t s =
     (case t of Crop \<Rightarrow> layersTransformingCropBounds s
              | Scale \<Rightarrow> layersTransformingScale s
              | Wheel \<Rightarrow> layersWheelScaling s)"

definition setTransformingSet :: "transformType \<Rightarrow> string list \<Rightarrow> compositor \<Rightarrow> compositor" where
  "setTransformingSet t v s =
     (case t of Crop \<Rightarrow> s\<lparr> layersTransformingCropBounds := v \<rparr>
              | Scale \<Rightarrow> s\<lparr> layersTransformingScale := v \<rparr>
              | Wheel \<Rightarrow> s\<lparr> layersWheelScaling := v \<rparr>)"

text \<open>
  The body of the timer callback of \<open>scheduleProcessedImageCreation\<close>, and
  \<open>executeTransform\<close> of \<open>handleTransformEnd\<close>.
\<close>

definition debouncedCreation :: "(real \<Rightarrow> string) \<Rightarrow> bool \<Rightarrow> ref \<Rightarrow> string \<Rightarrow> compositor \<Rightarrow> compositor" where
  "debouncedCreation numToString ctxOk r cacheKey s =
     (case createProcessedImage ctxOk r s of
        (processedImage, s1) \<Rightarrow>
          (let s2 = (case processedImage of
                       Some img \<Rightarrow>
                         render numToString
                           (s1\<lparr> processedImageCache := mapSet (processedImageCache s1) cacheKey img \<rparr>)
                     | None \<Rightarrow> s1)
           in s2\<lparr> processedImageDebounceTimers :=
                    mapDelete (processedImageDebounceTimers s2) (layer_id (c_heap s2 r)) \<rparr>))"

definition executeTransform ::
  "(real \<Rightarrow> string) \<Rightarrow> bool \<Rightarrow> ref \<Rightarrow> string \<Rightarrow> transformType \<Rightarrow> string \<Rightarrow> compositor \<Rightarrow> compositor" where
  "executeTransform numToString ctxOk r cacheKey t layerId s =
     (case createProcessedImage ctxOk r s of
        (processedImage, s1) \<Rightarrow>
          (case processedImage of
             Some img \<Rightarrow>
               (let s2 = s1\<lparr> processedImageCache := mapSet (processedImageCache s1) cacheKey img \<rparr>;
                    s3 = setTransformingSet t (setDelete (transformingSet t s2) layerId) s2
                in render numToString s3)
           | None \<Rightarrow> s1))"

fun runCallback :: "(real \<Rightarrow> string) \<Rightarrow> bool \<Rightarrow> callback \<Rightarrow> compositor \<Rightarrow> compositor" where
  "runCallback numToString ctxOk (DebouncedCreation r cacheKey) s =
     debouncedCreation numToString ctxOk r cacheKey s"
| "runCallback numToString ctxOk (ExecuteTransform r cacheKey t layerId) s =
     executeTransform numToString ctxOk r cacheKey t layerId s"
| "runCallback numToString ctxOk (DelayedTransform r cacheKey t layerId timerKey) s =
     (let s1 = executeTransform numToString ctxOk r cacheKey t layerId s
      in s1\<lparr> processedImageDebounceTimers :=
               mapDelete (processedImageDebounceTimers s1) timerKey \<rparr>)"

fun transformTypeName :: "transformType \<Rightarrow> string" where
  "transformTypeName Crop = ''crop''"
| "transformTypeName Scale = ''scale''"
| "transformTypeName Wheel = ''wheel''"

text \<open>
  \<open>handleTransformEnd(layer, transformType, delay)\<close> and
  \<open>handleCropBoundsTransformEnd(layer)\<close>. \<open>!layer.blendArea\<close> holds for 0.
\<close>

definition handleTransformEnd :: "(real \<Rightarrow> string) \<Rightarrow> ref \<Rightarrow> transformType \<Rightarrow> nat \<Rightarrow> compositor \<Rightarrow> compositor" where
  "handleTransformEnd numToString r t delay s =
     (let l = c_heap s r
      in if blendArea l = 0 then s
         else
           (let layerId = layer_id l;
                cacheKey = getProcessedImageCacheKey numToString l;
                s1 = setTransformingSet t (setAdd (transformingSet t s) layerId) s
            in if delay > 0 then
                 (let timerKey = layerId @ ''_'' @ transformTypeName t @ ''scaling'';
                      s2 = clearExisting timerKey s1
                  in case setTimeout (DelayedTransform r cacheKey t layerId timerKey) delay s2 of
                       (timer, s3) \<Rightarrow>
                         s3\<lparr> processedImageDebounceTimers :=
                                mapSet (processedImageDebounceTimers s3) timerKey timer \<rparr>)
               else snd (setTimeout (ExecuteTransform r cacheKey t layerId) 0 s1)))"

definition handleCropBoundsTransformEnd :: "(real \<Rightarrow> string) \<Rightarrow> ref \<Rightarrow> compositor \<Rightarrow> compositor" where
  "handleCropBoundsTransformEnd numToString r s =
     (let l = c_heap s r
      in if \<not> cropMode l \<or> blendArea l = 0 then s
         else handleTransformEnd numToString r Crop 0 s)"

text \<open>
  The event loop. The next callback to run is the one with the least due time, the
  earliest set among equals; \<open>advanceTo t\<close> runs the callbacks due by \<open>t\<close> in that order,
  each at its due time, and then sets the clock to \<open>t\<close>. A callback can set further
  timers, so the loop has fuel, and \<open>None\<close> means that the fuel ran out.
\<close>

definition nextDue :: "nat \<Rightarrow> compositor \<Rightarrow> (nat \<times> nat \<times> callback) option" where
  "nextDue t s =
     (case filter (\<lambda>(h, due, cb). due \<le> t) (timerQueue s) of
        [] \<Rightarrow> None
      | e # es \<Rightarrow> Some (foldl (\<lambda>best e'. if fst (snd e') < fst (snd best) then e' else best) e es))"

fun advanceTo :: "(real \<Rightarrow> string) \<Rightarrow> bool \<Rightarrow> nat \<Rightarrow> nat \<Rightarrow> compositor \<Rightarrow> compositor option" where
  "advanceTo numToString ctxOk 0 t s =
     (case nextDue t s of None \<Rightarrow> Some (s\<lparr> now := max (now s) t \<rparr>) | Some e \<Rightarrow> None)"
| "advanceTo numToString ctxOk (Suc fuel) t s =
     (case nextDue t s of
        None \<Rightarrow> Some (s\<lparr> now := max (now s) t \<rparr>)
      | Some (h, due, cb) \<Rightarrow>
          advanceTo numToString ctxOk fuel t
            (runCallback numToString ctxOk cb
               ((clearTimeout h s)\<lparr> now := max (now s) due \<rparr>)))"

text \<open>
  What the pointer does to a layer in crop mode, as \<open>CanvasInteractions\<close> calls into
  the compositor: \<open>startLayerTransform\<close> enters the mode \<open>'resizing'\<close> and renders; each
  \<open>mousemove\<close> has \<open>resizeLayerFromHandle\<close> assign new crop bounds and render;
  \<open>handleMouseUp\<close> calls \<open>handleCropBoundsTransformEnd\<close>, renders, resets the mode and
  renders again.
\<close>

datatype pointerEvent = DragStart ref | DragMove ref rect | DragEnd ref

fun pointer :: "(real \<Rightarrow> string) \<Rightarrow> pointerEvent \<Rightarrow> compositor \<Rightarrow> compositor" where
  "pointer numToString (DragStart r) s =
     render numToString (s\<lparr> resizingLayer := Some (layer_id (c_heap s r)) \<rparr>)"
| "pointer numToString (DragMove r b) s =
     render numToString (s\<lparr> c_heap := (c_heap s)(r := (c_heap s r)\<lparr> cropBounds := Some b \<rparr>) \<rparr>)"
| "pointer numToString (DragEnd r) s =
     (let s1 = (if resizingLayer s = Some (layer_id (c_heap s r)) \<and> cropMode (c_heap s r)
                then handleCropBoundsTransformEnd numToString r s else s);
          s2 = render numToString s1;
          s3 = s2\<lparr> resizingLayer := None \<rparr>
      in render numToString s3)"

text \<open>
  A run: pointer events at given times, the event loop turning in between, and at the
  end the time going on to \<open>tEnd\<close>.
\<close>

fun run :: "(real \<Rightarrow> string) \<Rightarrow> bool \<Rightarrow> nat \<Rightarrow> (nat \<times> pointerEvent) list \<Rightarrow> nat \<Rightarrow> compositor
            \<Rightarrow> compositor option" where
  "run numToString ctxOk fuel [] tEnd s = advanceTo numToString ctxOk fuel tEnd s"
| "run numToString ctxOk fuel ((t, e) # es) tEnd s =
     (case advanceTo numToString ctxOk fuel t s of
        None \<Rightarrow> None
      | Some s1 \<Rightarrow> run numToString ctxOk fuel es tEnd (pointer numToString e s1))"

text \<open>
  Decimal digits of a natural number, and of an integer: what \<open>Number.prototype.toString\<close>
  gives for an integer value (of moderate size).
\<close>

fun natToString :: "nat \<Rightarrow> string" where
  "natToString n =
     (if n < 10 then [''0123456789'' ! n]
      else natToString (n div 10) @ [''0123456789'' ! (n mod 10)])"

declare natToString.simps [simp del]

definition integerToString :: "int \<Rightarrow> string" where
  "integerToString i = (if i < 0 then CHR ''-'' # natToString (nat (- i)) else natToString (nat i))"

section \<open>History (CanvasState)\<close>

text \<open>
  The history manager reads and writes \<open>canvas.layers\<close> and the mask of the mask tool.
  A snapshot is a deep copy, and restoring makes another deep copy, so the layer store is
  held by value here: a list of layer states of any type \<open>'l\<close>, and a mask raster of any
  type \<open>'m\<close>. A JavaScript array used as a stack has its top at the end: \<open>push\<close> appends,
  \<open>pop\<close> is \<open>butlast\<close>, \<open>shift\<close> is \<open>tl\<close>.
\<close>

record 'm maskTool =
  isActive :: bool
  mask :: 'm

record ('l, 'm) canvas =
  layers :: "'l list"
  maskTool :: "'m maskTool option"
  layersUndoStack :: "'l list list"
  layersRedoStack :: "'l list list"
  maskUndoStack :: "'m list"
  maskRedoStack :: "'m list"

text \<open>\<open>this.historyLimit = 100\<close>, set by the constructor and never assigned again.\<close>

definition historyLimit :: nat where
  "historyLimit = 100"

text \<open>
  Modelled from the spec: \<open>cloneLayers\<close> of \<open>utils/CommonUtils\<close> is not among the source
  files. Section 4.6: ``deep-clone all serializable Layer fields (excluding the owned
  image reference, which is shared by identity)''. On values a deep copy is the
  identity.
\<close>

definition cloneLayers :: "'l list \<Rightarrow> 'l list" where
  "cloneLayers ls = map (\<lambda>l. l) ls"

text \<open>
  \<open>getStateSignature\<close> belongs to the same missing module; it is the parameter \<open>sig\<close>
  of the functions below.

  \<open>saveLayersState(replaceLast)\<close>. Scheduling the debounced save to the database does
  not touch the history and is left out.
\<close>

definition saveLayersState :: "('l list \<Rightarrow> 's) \<Rightarrow> bool \<Rightarrow> ('l, 'm) canvas \<Rightarrow> ('l, 'm) canvas" where
  "saveLayersState sig replaceLast c =
     (let stack0 = (if replaceLast \<and> length (layersUndoStack c) > 0
                    then butlast (layersUndoStack c) else layersUndoStack c);
          currentState = cloneLayers (layers c);
          currentStateSignature = sig currentState
      in if length stack0 > 0 \<and> sig (last stack0) = currentStateSignature
         then c\<lparr> layersUndoStack := stack0 \<rparr>
         else (let stack1 = stack0 @ [currentState];
                   stack2 = (if length stack1 > historyLimit then tl stack1 else stack1)
               in c\<lparr> layersUndoStack := stack2, layersRedoStack := [] \<rparr>))"

text \<open>
  \<open>saveMaskState(replaceLast)\<close>. The clone is a fresh canvas of the mask's size with
  the mask drawn onto it: the same raster, by value.
\<close>

definition saveMaskState :: "bool \<Rightarrow> ('l, 'm) canvas \<Rightarrow> ('l, 'm) canvas" where
  "saveMaskState replaceLast c =
     (case maskTool c of
        None \<Rightarrow> c
      | Some mt \<Rightarrow>
          (let stack0 = (if replaceLast \<and> length (maskUndoStack c) > 0
                         then butlast (maskUndoStack c) else maskUndoStack c);
               clonedCanvas = mask mt;
               stack1 = stack0 @ [clonedCanvas];
               stack2 = (if length stack1 > historyLimit then tl stack1 else stack1)
           in c\<lparr> maskUndoStack := stack2, maskRedoStack := [] \<rparr>))"

text \<open>\<open>this.canvas.maskTool && this.canvas.maskTool.isActive\<close>.\<close>

definition maskActive :: "('l, 'm) canvas \<Rightarrow> bool" where
  "maskActive c = (case maskTool c of None \<Rightarrow> False | Some mt \<Rightarrow> isActive mt)"

definition saveState :: "('l list \<Rightarrow> 's) \<Rightarrow> bool \<Rightarrow> ('l, 'm) canvas \<Rightarrow> ('l, 'm) canvas" where
  "saveState sig replaceLast c =
     (if maskActive c then saveMaskState replaceLast c else saveLayersState sig replaceLast c)"

text \<open>
  \<open>undoLayersState\<close> and \<open>redoLayersState\<close>. Selection repair, rendering and the
  history buttons do not touch the layers or the stacks.
\<close>

definition undoLayersState :: "('l, 'm) canvas \<Rightarrow> ('l, 'm) canvas" where
  "undoLayersState c =
     (if length (layersUndoStack c) \<le> 1 then c
      else (let currentState = last (layersUndoStack c);
                undo' = butlast (layersUndoStack c);
                redo' = layersRedoStack c @ [currentState];
                prevState = last undo'
            in c\<lparr> layersUndoStack := undo', layersRedoStack := redo',
                   layers := cloneLayers prevState \<rparr>))"

definition redoLayersState :: "('l, 'm) canvas \<Rightarrow> ('l, 'm) canvas" where
  "redoLayersState c =
     (if length (layersRedoStack c) = 0 then c
      else (let nextState = last (layersRedoStack c)
            in c\<lparr> layersRedoStack := butlast (layersRedoStack c),
                   layersUndoStack := layersUndoStack c @ [nextState],
                   layers := cloneLayers nextState \<rparr>))"

text \<open>
  \<open>undoMaskState\<close> and \<open>redoMaskState\<close>; \<open>restoreMaskFromSavedState\<close> replaces the
  mask of the tool by the saved raster.
\<close>

definition undoMaskState :: "('l, 'm) canvas \<Rightarrow> ('l, 'm) canvas" where
  "undoMaskState c =
     (case maskTool c of
        None \<Rightarrow> c
      | Some mt \<Rightarrow>
          if length (maskUndoStack c) \<le> 1 then c
          else (let currentState = last (maskUndoStack c);
                    undo' = butlast (maskUndoStack c);
                    redo' = maskRedoStack c @ [currentState]
                in if length undo' > 0
                   then c\<lparr> maskUndoStack := undo', maskRedoStack := redo',
                          maskTool := Some (mt\<lparr> mask := last undo' \<rparr>) \<rparr>
                   else c\<lparr> maskUndoStack := undo', maskRedoStack := redo' \<rparr>))"

definition redoMaskState :: "('l, 'm) canvas \<Rightarrow> ('l, 'm) canvas" where
  "redoMaskState c =
     (case maskTool c of
        None \<Rightarrow> c
      | Some mt \<Rightarrow>
          if length (maskRedoStack c) = 0 then c
          else (let nextState = last (maskRedoStack c)
                in c\<lparr> maskRedoStack := butlast (maskRedoStack c),
                       maskUndoStack := maskUndoStack c @ [nextState],
                       maskTool := Some (mt\<lparr> mask := nextState \<rparr>) \<rparr>))"

definition undo :: "('l, 'm) canvas \<Rightarrow> ('l, 'm) canvas" where
  "undo c = (if maskActive c then undoMaskState c else undoLayersState c)"

definition redo :: "('l, 'm) canvas \<Rightarrow> ('l, 'm) canvas" where
  "redo c = (if maskActive c then redoMaskState c else redoLayersState c)"

text \<open>The size of the undo and of the redo stack that \<open>undo\<close> and \<open>redo\<close> work on.\<close>

definition activeUndoCount :: "('l, 'm) canvas \<Rightarrow> nat" where
  "activeUndoCount c =
     (if maskActive c then length (maskUndoStack c) else length (layersUndoStack c))"

definition activeRedoCount :: "('l, 'm) canvas \<Rightarrow> nat" where
  "activeRedoCount c =
     (if maskActive c then length (maskRedoStack c) else length (layersRedoStack c))"

text \<open>
  The state the constructor of \<open>CanvasState\<close> leaves: four empty stacks. The layers and
  the mask tool are the canvas's.
\<close>

definition newCanvas :: "'l list \<Rightarrow> 'm maskTool option \<Rightarrow> ('l, 'm) canvas" where
  "newCanvas ls mt =
     \<lparr> layers = ls, maskTool = mt, layersUndoStack = [], layersRedoStack = [],
       maskUndoStack = [], maskRedoStack = [] \<rparr>"

text \<open>
  One edit followed by a snapshot: the layer store takes the value \<open>ls\<close>, then
  \<open>saveState()\<close> runs. \<open>snapshots\<close> does so for each state of a list in turn, and
  \<open>undos n\<close> is \<open>n\<close> calls of \<open>undo()\<close>.
\<close>

definition editAndSnapshot :: "('l list \<Rightarrow> 's) \<Rightarrow> ('l, 'm) canvas \<Rightarrow> 'l list \<Rightarrow> ('l, 'm) canvas" where
  "editAndSnapshot sig c ls = saveState sig False (c\<lparr> layers := ls \<rparr>)"

definition snapshots :: "('l list \<Rightarrow> 's) \<Rightarrow> 'l list list \<Rightarrow> ('l, 'm) canvas \<Rightarrow> ('l, 'm) canvas" where
  "snapshots sig lss c = foldl (editAndSnapshot sig) c lss"

fun undos :: "nat \<Rightarrow> ('l, 'm) canvas \<Rightarrow> ('l, 'm) canvas" where
  "undos 0 c = c"
| "undos (Suc n) c = undos n (undo c)"

section \<open>Example states\<close>

text \<open>
  A canvas whose layer history holds a baseline \<open>[0]\<close> while the store has been edited
  to \<open>[1]\<close>, and one whose mask history holds a baseline raster \<open>0\<close> while the mask
  tool, active, holds raster \<open>1\<close>. Layer states and rasters are numbers here, and the
  signature is the state itself.
\<close>

definition editedLayerCanvas :: "(nat, nat) canvas" where
  "editedLayerCanvas =
     \<lparr> layers = [1], maskTool = None, layersUndoStack = [[0]], layersRedoStack = [],
       maskUndoStack = [], maskRedoStack = [] \<rparr>"


text \<open>
  The canvas after a baseline snapshot of \<open>[0]\<close>, an edit to \<open>[1]\<close> with its snapshot,
  and one \<open>undo\<close>; and 101 layer states, the \<open>i\<close>-th being \<open>[i]\<close>.
\<close>

definition undoneCanvas :: "(nat, nat) canvas" where
  "undoneCanvas =
     \<lparr> layers = [0], maskTool = None, layersUndoStack = [[0]], layersRedoStack = [[1]],
       maskUndoStack = [], maskRedoStack = [] \<rparr>"

definition manySnapshots :: "nat list list" where
  "manySnapshots = map (\<lambda>i. [i]) [1..<102]"

text \<open>
  The layer of the resize scenario: frame \<open>(0, 0, 100, 100)\<close>, rotation 0, image of
  100 by 100, no crop; the same layer mirrored horizontally and in crop mode with the
  whole image visible; and an idle interaction record with no modifier key held.
\<close>

definition squareLayer :: layer where
  "squareLayer =
     \<lparr> layer_id = ''layer-1'', layer_image = 0, imageId = ''image-1'', name = ''Layer'',
       layer_x = 0, layer_y = 0, layer_width = 100, layer_height = 100,
       originalWidth = 100, originalHeight = 100, rotation = 0, zIndex = 0,
       blendMode = ''normal'', opacity = 1, visible = True,
       flipH = False, flipV = False, cropMode = False, cropBounds = None, blendArea = 0 \<rparr>"

definition flippedCropLayer :: layer where
  "flippedCropLayer =
     squareLayer\<lparr> flipH := True, cropMode := True,
       cropBounds := Some \<lparr> rc_x = 0, rc_y = 0, rc_width = 100, rc_height = 100 \<rparr> \<rparr>"

definition idleInteraction :: interaction where
  "idleInteraction =
     \<lparr> i_mode = NoInteraction, transformingLayer = None, transformOrigin = None,
       dragStart = \<lparr> pt_x = 0, pt_y = 0 \<rparr>, resizeHandle = None,
       resizeAnchor = \<lparr> pt_x = 0, pt_y = 0 \<rparr>, isCtrlPressed = False \<rparr>"

text \<open>
  A store of three layers, objects 0, 1 and 2, with \<open>zIndex\<close> 0, 3 and 7 (gaps, as
  removals leave them); objects 0 and 1 are selected, and the clipboard holds two
  layers. Then an environment in which everything succeeds.
\<close>

definition threeLayers :: store where
  "threeLayers =
     \<lparr> heap = (\<lambda>r. squareLayer)
         (0 := squareLayer\<lparr> zIndex := 0 \<rparr>,
          1 := squareLayer\<lparr> layer_x := 50, zIndex := 3 \<rparr>,
          2 := squareLayer\<lparr> layer_y := 50, zIndex := 7 \<rparr>),
       canvas_layers = [0, 1, 2],
       selectedLayers = [0, 1],
       nextRef = 3,
       internalClipboard = [squareLayer\<lparr> zIndex := 4 \<rparr>, squareLayer\<lparr> zIndex := 2 \<rparr>],
       lastMousePosition = \<lparr> pt_x = 10, pt_y = 10 \<rparr>,
       outputAreaBounds = \<lparr> rc_x = 0, rc_y = 0, rc_width = 512, rc_height = 512 \<rparr> \<rparr>"

definition workingEnvironment :: environment where
  "workingEnvironment =
     \<lparr> contextAvailable = True, imageLoads = True,
       uuid_imageId = ''image-2'', uuid_id = ''layer-2'', newImage = 1 \<rparr>"




text \<open>
  A compositor with one layer, object 0: blend area 40, in crop mode with the whole
  image of 100 by 100 visible; nothing cached, no timer set, the clock at 0. The numbers
  of the layer are integers throughout the runs below, so keys are formed with
  \<open>integerToString\<close>.
\<close>

definition blendLayer :: layer where
  "blendLayer =
     squareLayer\<lparr> layer_id := ''L'', blendArea := 40, cropMode := True,
       cropBounds := Some \<lparr> rc_x = 0, rc_y = 0, rc_width = 100, rc_height = 100 \<rparr> \<rparr>"

definition quietCompositor :: compositor where
  "quietCompositor =
     \<lparr> c_heap = (\<lambda>r. blendLayer), c_layers = [0],
       processedImageCache = [], processedImageDebounceTimers = [],
       layersAdjustingBlendArea = [], layersTransformingCropBounds = [],
       layersTransformingScale = [], layersWheelScaling = [],
       resizingLayer = None, timerQueue = [], nextHandle = 1, now = 0, createdLog = [] \<rparr>"

definition showNumber :: "real \<Rightarrow> string" where
  "showNumber v = integerToString \<lfloor>v\<rfloor>"

text \<open>
  One drag of the \<open>e\<close> handle with two moves, 100 ms apart, released at 300 ms; and two
  such drags one after the other, all within one second.
\<close>

definition oneDragTwoMoves :: "(nat \<times> pointerEvent) list" where
  "oneDragTwoMoves =
     [(0, DragStart 0),
      (100, DragMove 0 \<lparr> rc_x = 0, rc_y = 0, rc_width = 90, rc_height = 100 \<rparr>),
      (200, DragMove 0 \<lparr> rc_x = 0, rc_y = 0, rc_width = 80, rc_height = 100 \<rparr>),
      (300, DragEnd 0)]"

definition twoDrags :: "(nat \<times> pointerEvent) list" where
  "twoDrags =
     [(0, DragStart 0),
      (100, DragMove 0 \<lparr> rc_x = 0, rc_y = 0, rc_width = 90, rc_height = 100 \<rparr>),
      (200, DragEnd 0),
      (400, DragStart 0),
      (500, DragMove 0 \<lparr> rc_x = 0, rc_y = 0, rc_width = 80, rc_height = 100 \<rparr>),
      (600, DragEnd 0)]"

section \<open>Viewport: properties\<close>




section \<open>History: properties\<close>

lemma tl_snoc_long:
  "length (st @ [x]) > historyLimit \<Longrightarrow> tl (st @ [x]) = tl st @ [x] \<and> st \<noteq> []"
  by (cases st) (simp_all add: historyLimit_def)

lemma saveLayersState_layers [simp]: "layers (saveLayersState sig r c) = layers c"
  by (simp add: saveLayersState_def Let_def)

lemma saveLayersState_maskTool [simp]: "maskTool (saveLayersState sig r c) = maskTool c"
  by (simp add: saveLayersState_def Let_def)


lemma saveLayersState_push:
  assumes "layersUndoStack c = [] \<or> sig (last (layersUndoStack c)) \<noteq> sig (layers c)"
    and "length (layersUndoStack c) < historyLimit"
  shows "layersUndoStack (saveLayersState sig False c) = layersUndoStack c @ [layers c]"
  using assms by (auto simp: saveLayersState_def Let_def cloneLayers_def)




lemma saveMaskState_maskTool [simp]: "maskTool (saveMaskState r c) = maskTool c"
  by (simp add: saveMaskState_def Let_def split: option.splits)

lemma maskActive_saveLayersState [simp]: "maskActive (saveLayersState sig r c) = maskActive c"
  by (simp add: maskActive_def)

lemma maskActive_saveMaskState [simp]: "maskActive (saveMaskState r c) = maskActive c"
  by (simp add: maskActive_def)







text \<open>
  Claim C5, as amended. \<open>undo\<close> needs at least two entries on the active undo stack
  (the baseline at index 0 is never undone past); \<open>redo\<close> needs a non-empty active redo
  stack, whatever the size of the undo stack. When its precondition fails, either
  operation returns the state as it was: layer store, mask and all four stacks. With two
  entries or more, \<open>undo\<close> on the layer track restores the entry below the top.
\<close>

theorem undo_redo_preconditions:
  "(activeUndoCount c < 2 \<longrightarrow> undo c = c)
   \<and> (activeRedoCount c = 0 \<longrightarrow> redo c = c)
   \<and> (\<not> maskActive c \<and> 2 \<le> activeUndoCount c \<longrightarrow>
        layers (undo c) = last (butlast (layersUndoStack c)))"
  by (auto simp: activeUndoCount_def activeRedoCount_def undo_def redo_def
        undoMaskState_def redoMaskState_def undoLayersState_def redoLayersState_def
        maskActive_def cloneLayers_def Let_def split: option.splits)

theorem undo_redo_preconditions_witness:
  "undo editedLayerCanvas = editedLayerCanvas
   \<and> redo editedLayerCanvas = editedLayerCanvas
   \<and> layers (undo (redo undoneCanvas)) = [0]"
  using undo_redo_preconditions [of editedLayerCanvas]
        undo_redo_preconditions [of "redo undoneCanvas", THEN conjunct2, THEN conjunct2]
  by (simp add: editedLayerCanvas_def undoneCanvas_def activeUndoCount_def activeRedoCount_def
      maskActive_def redo_def redoLayersState_def cloneLayers_def Let_def)

text \<open>
  The claim as stated fails for \<open>redo\<close>: after two snapshots and one \<open>undo\<close> the undo
  stack holds the baseline alone, and \<open>redo\<close> still restores the undone state.
\<close>

theorem redo_with_one_undo_entry_counterexample:
  "undo (snapshots (\<lambda>ls. ls) [[0], [1]] (newCanvas [0] None)) = undoneCanvas
   \<and> activeUndoCount undoneCanvas = 1
   \<and> layers undoneCanvas = [0]
   \<and> layers (redo undoneCanvas) = [1]
   \<and> layersUndoStack (redo undoneCanvas) = [[0], [1]]
   \<and> redo undoneCanvas \<noteq> undoneCanvas"
  by (simp add: undoneCanvas_def snapshots_def editAndSnapshot_def saveState_def
      saveLayersState_def maskActive_def newCanvas_def undo_def undoLayersState_def redo_def
      redoLayersState_def cloneLayers_def historyLimit_def activeUndoCount_def Let_def)

lemma undoLayersState_maskTool [simp]: "maskTool (undoLayersState c) = maskTool c"
  by (simp add: undoLayersState_def Let_def)

lemma maskActive_undoLayersState [simp]: "maskActive (undoLayersState c) = maskActive c"
  by (simp add: maskActive_def)

lemma undo_layers: "\<not> maskActive c \<Longrightarrow> undo c = undoLayersState c"
  by (simp add: undo_def)

lemma undoLayersState_step:
  assumes "1 < length (layersUndoStack c)"
  shows "layersUndoStack (undoLayersState c) = butlast (layersUndoStack c)
         \<and> layers (undoLayersState c) = last (butlast (layersUndoStack c))"
  using assms by (simp add: undoLayersState_def Let_def cloneLayers_def)

lemma undos_noop:
  assumes "\<not> maskActive c" "length (layersUndoStack c) \<le> 1"
  shows "undos k c = c"
  using assms by (induction k) (simp_all add: undo_layers undoLayersState_def)

lemma undos_to_baseline:
  assumes "\<not> maskActive c" "2 \<le> length (layersUndoStack c)"
    and "length (layersUndoStack c) - 1 \<le> k"
  shows "layers (undos k c) = hd (layersUndoStack c)"
  using assms
proof (induction k arbitrary: c)
  case 0
  then show ?case by simp
next
  case (Suc k)
  let ?st = "layersUndoStack c"
  let ?c' = "undoLayersState c"
  from Suc.prems have len: "1 < length ?st" by simp
  have st': "layersUndoStack ?c' = butlast ?st" and ly: "layers ?c' = last (butlast ?st)"
    using undoLayersState_step [OF len] by simp_all
  have na: "\<not> maskActive ?c'" using Suc.prems(1) by simp
  have u: "undos (Suc k) c = undos k ?c'"
    using Suc.prems(1) by (simp add: undo_layers)
  have ne: "butlast ?st \<noteq> []" using len by (cases ?st rule: rev_cases) auto
  have hd': "hd (butlast ?st) = hd ?st"
    using ne by (cases ?st) (auto split: if_splits)
  show ?case
  proof (cases "2 \<le> length (butlast ?st)")
    case True
    have "layers (undos k ?c') = hd (layersUndoStack ?c')"
      using na True Suc.prems(3) by (intro Suc.IH) (simp_all add: st')
    then show ?thesis unfolding u by (simp add: st' hd')
  next
    case False
    have "0 < length (butlast ?st)" using len by simp
    with False have one: "length (butlast ?st) = 1" by linarith
    then have "last (butlast ?st) = hd (butlast ?st)"
      by (cases "butlast ?st") auto
    moreover have "undos k ?c' = ?c'"
      using na one by (intro undos_noop) (simp_all add: st')
    ultimately show ?thesis unfolding u by (simp add: ly hd')
  qed
qed

lemma snapshots_snoc:
  "snapshots sig (lss @ [ls]) c = editAndSnapshot sig (snapshots sig lss c) ls"
  by (simp add: snapshots_def)

lemma editAndSnapshot_layers:
  "\<not> maskActive c \<Longrightarrow> editAndSnapshot sig c ls = saveLayersState sig False (c\<lparr> layers := ls \<rparr>)"
  by (simp add: editAndSnapshot_def saveState_def maskActive_def)

lemma saveLayersState_push_evict:
  assumes "layersUndoStack c = [] \<or> sig (last (layersUndoStack c)) \<noteq> sig (layers c)"
  shows "layersUndoStack (saveLayersState sig False c) =
           (if length (layersUndoStack c) < historyLimit then layersUndoStack c @ [layers c]
            else tl (layersUndoStack c) @ [layers c])"
proof (cases "length (layersUndoStack c) < historyLimit")
  case True
  with assms show ?thesis by (simp add: saveLayersState_push)
next
  case False
  then have long: "length (layersUndoStack c @ [layers c]) > historyLimit" by simp
  have "layersUndoStack (saveLayersState sig False c) = tl (layersUndoStack c @ [layers c])"
    using assms long by (auto simp: saveLayersState_def Let_def cloneLayers_def)
  with tl_snoc_long [OF long] False show ?thesis by simp
qed

lemma snapshots_stack:
  assumes "\<not> maskActive c" "layersUndoStack c = []" "distinct (map sig lss)"
  shows "layersUndoStack (snapshots sig lss c) = drop (length lss - historyLimit) lss
         \<and> \<not> maskActive (snapshots sig lss c)
         \<and> (lss \<noteq> [] \<longrightarrow> layers (snapshots sig lss c) = last lss)"
  using assms(3)
proof (induction lss rule: rev_induct)
  case Nil
  then show ?case using assms(1,2) by (simp add: snapshots_def)
next
  case (snoc ls lss)
  let ?c = "snapshots sig lss c"
  let ?n = "length lss"
  from snoc have ih: "layersUndoStack ?c = drop (?n - historyLimit) lss" "\<not> maskActive ?c"
    by simp_all
  let ?e = "?c\<lparr> layers := ls \<rparr>"
  have step: "snapshots sig (lss @ [ls]) c = saveLayersState sig False ?e"
    using ih(2) by (simp add: snapshots_snoc editAndSnapshot_layers)
  have differs: "layersUndoStack ?e = [] \<or> sig (last (layersUndoStack ?e)) \<noteq> sig (layers ?e)"
  proof (cases "layersUndoStack ?e = []")
    case True
    then show ?thesis by simp
  next
    case False
    then have "last (layersUndoStack ?e) \<in> set lss"
      using ih(1) by (metis in_set_dropD last_in_set select_convs(3) surjective update_convs(1))
    then have "sig (last (layersUndoStack ?e)) \<in> set (map sig lss)" by simp
    moreover from snoc.prems have "sig ls \<notin> set (map sig lss)" by simp
    ultimately show ?thesis by auto
  qed
  have len: "length (layersUndoStack ?e) = min ?n historyLimit"
    using ih(1) by (simp add: min_def)
  have stack: "layersUndoStack (saveLayersState sig False ?e)
               = drop (length (lss @ [ls]) - historyLimit) (lss @ [ls])"
  proof (cases "?n < historyLimit")
    case True
    then show ?thesis
      using saveLayersState_push_evict [OF differs] ih(1) len by simp
  next
    case False
    then have full: "\<not> length (layersUndoStack ?e) < historyLimit" using len by simp
    have "tl (drop (?n - historyLimit) lss) = drop (Suc ?n - historyLimit) lss"
      using False by (simp add: drop_Suc tl_drop Suc_diff_le)
    moreover have "Suc 0 - historyLimit = 0" by (simp add: historyLimit_def)
    ultimately show ?thesis
      using saveLayersState_push_evict [OF differs] full ih(1) False
      by (simp add: Suc_diff_le)
  qed
  have na: "\<not> maskActive ?e" using ih(2) by (simp add: maskActive_def)
  show ?case using step stack na by simp
qed

text \<open>
  Claim C6, as amended. Starting with empty history stacks and the mask tool inactive,
  \<open>N\<close> snapshots of layer states with pairwise distinct signatures, for
  \<open>1 \<le> N \<le> historyLimit = 100\<close>, followed by \<open>N - 1\<close> calls of \<open>undo\<close>, leave the
  layer store equal to the first snapshot, the baseline: field by field, which is more
  than equality of signatures.
\<close>

theorem snapshots_then_undos_reach_baseline:
  assumes "\<not> maskActive c" and "layersUndoStack c = []"
    and "lss \<noteq> []" and "length lss \<le> historyLimit" and "distinct (map sig lss)"
  shows "layers (undos (length lss - 1) (snapshots sig lss c)) = hd lss"
proof -
  let ?c = "snapshots sig lss c"
  have st: "layersUndoStack ?c = lss" and na: "\<not> maskActive ?c"
    and ly: "layers ?c = last lss"
    using snapshots_stack [OF assms(1,2,5)] assms(3,4) by simp_all
  show ?thesis
  proof (cases "length lss = 1")
    case True
    then have "last lss = hd lss" by (cases lss) simp_all
    with True ly show ?thesis by simp
  next
    case False
    have "lss \<noteq> []" by (rule assms(3))
    then have "0 < length lss" by simp
    with False have "2 \<le> length lss" by linarith
    then have "layers (undos (length lss - 1) ?c) = hd (layersUndoStack ?c)"
      using na by (intro undos_to_baseline) (simp_all add: st)
    then show ?thesis by (simp add: st)
  qed
qed

theorem snapshots_then_undos_reach_baseline_witness:
  "layers (undos (3 - 1) (snapshots (\<lambda>ls. ls) [[0], [1], [2]]
      (newCanvas [0] None :: (nat, nat) canvas))) = [0]"
  using snapshots_then_undos_reach_baseline
          [of "newCanvas [0] None :: (nat, nat) canvas" "[[0], [1], [2]]" "\<lambda>ls. ls"]
  by (simp add: newCanvas_def maskActive_def historyLimit_def numeral_2_eq_2)

text \<open>
  The claim as stated fails beyond the history limit: the 101st snapshot evicts the
  baseline from the stack, and 100 calls of \<open>undo\<close> end on the second state.
\<close>

theorem snapshots_past_history_limit_counterexample:
  "length manySnapshots = 101 \<and> distinct manySnapshots \<and> hd manySnapshots = [1]
   \<and> layers (undos (101 - 1) (snapshots (\<lambda>ls. ls) manySnapshots
      (newCanvas [1] None :: (nat, nat) canvas))) = [2]"
proof -
  let ?c = "newCanvas [1] None :: (nat, nat) canvas"
  let ?c' = "snapshots (\<lambda>ls. ls) manySnapshots ?c"
  have d: "distinct (map (\<lambda>ls. ls) manySnapshots)"
    by (simp add: manySnapshots_def distinct_map inj_on_def)
  have n: "length manySnapshots = 101" by (simp add: manySnapshots_def)
  have na: "\<not> maskActive ?c" by (simp add: newCanvas_def maskActive_def)
  have e: "layersUndoStack ?c = []" by (simp add: newCanvas_def)
  have st: "layersUndoStack ?c' = drop 1 manySnapshots" and na': "\<not> maskActive ?c'"
    using snapshots_stack [OF na e d] by (simp_all add: n historyLimit_def)
  have l2: "2 \<le> length (layersUndoStack ?c')" using st n by simp
  have k: "length (layersUndoStack ?c') - 1 \<le> 101 - 1" using st n by simp
  have "layers (undos (101 - 1) ?c') = hd (layersUndoStack ?c')"
    using na' l2 k by (rule undos_to_baseline)
  moreover have "hd (drop 1 manySnapshots) = [2]" "hd manySnapshots = [1]"
    unfolding manySnapshots_def by code_simp+
  ultimately show ?thesis using d n st by simp
qed

section \<open>Resize and crop: properties\<close>

lemmas crop_steps = edgeW_def edgeE_def edgeN_def edgeS_def clampMinWidth_def clampMinHeight_def
  clampLeft_def clampTop_def clampRight_def clampBottom_def

lemma getHandles_nw_unrotated:
  assumes "rotation l = 0" "\<not> cropMode l"
  shows "getHandles z l Hnw = \<lparr> pt_x = layer_x l, pt_y = layer_y l \<rparr>"
  using assms by (simp add: getHandles_def handleFrame_def Let_def split: option.splits)

text \<open>
  Claim C2. A layer at \<open>(0, 0, 100, 100)\<close> with rotation 0, not in crop mode; a drag of
  the \<open>se\<close> handle to the world point \<open>(150, 150)\<close> with neither Shift nor Ctrl held.
  The anchor taken at the start of the drag is the \<open>nw\<close> handle at \<open>(0, 0)\<close>; the
  layer becomes \<open>(0, 0, 150, 150)\<close>; and the \<open>nw\<close> handle of the resized layer is still
  at \<open>(0, 0)\<close>. This holds for any viewport zoom, any place \<open>start\<close> of the mouse-down and
  any other field of the layer.
\<close>

theorem resize_se_keeps_nw_anchor:
  assumes "layer_x l = 0" "layer_y l = 0" "layer_width l = 100" "layer_height l = 100"
    and "rotation l = 0" "\<not> cropMode l" "\<not> isCtrlPressed i"
  shows "resizeAnchor (startLayerTransform z l Hse start i) = \<lparr> pt_x = 0, pt_y = 0 \<rparr>
    \<and> transformingLayer (resizeLayerFromHandle snapToGrid z \<lparr> pt_x = 150, pt_y = 150 \<rparr> False
          (startLayerTransform z l Hse start i))
        = Some (l\<lparr> layer_x := 0, layer_y := 0, layer_width := 150, layer_height := 150 \<rparr>)
    \<and> getHandles z (l\<lparr> layer_x := 0, layer_y := 0, layer_width := 150, layer_height := 150 \<rparr>) Hnw
        = \<lparr> pt_x = 0, pt_y = 0 \<rparr>"
proof -
  let ?i1 = "startLayerTransform z l Hse start i"
  have anchor: "resizeAnchor ?i1 = \<lparr> pt_x = 0, pt_y = 0 \<rparr>"
    using assms by (simp add: startLayerTransform_def Let_def getHandles_nw_unrotated)
  have origin: "transformOrigin ?i1 = Some
      \<lparr> o_x = 0, o_y = 0, o_width = 100, o_height = 100, o_rotation = 0,
        o_centerX = 50, o_centerY = 50, o_originalWidth = originalWidth l,
        o_originalHeight = originalHeight l, o_cropBounds = cropBounds l \<rparr>"
    using assms by (simp add: startLayerTransform_def Let_def)
  have rest: "transformingLayer ?i1 = Some l" "resizeHandle ?i1 = Some Hse"
    "\<not> isCtrlPressed ?i1"
    using assms by (simp_all add: startLayerTransform_def Let_def)
  have frame: "transformFromHandle
      \<lparr> o_x = 0, o_y = 0, o_width = 100, o_height = 100, o_rotation = 0,
        o_centerX = 50, o_centerY = 50, o_originalWidth = originalWidth l,
        o_originalHeight = originalHeight l, o_cropBounds = cropBounds l \<rparr>
      (Some Hse) \<lparr> pt_x = 0, pt_y = 0 \<rparr> False 150 150 l
      = l\<lparr> layer_x := 0, layer_y := 0, layer_width := 150, layer_height := 150 \<rparr>"
    by (simp add: transformFromHandle_def has_def Let_def)
  have resized: "transformingLayer (resizeLayerFromHandle snapToGrid z \<lparr> pt_x = 150, pt_y = 150 \<rparr> False ?i1)
      = Some (l\<lparr> layer_x := 0, layer_y := 0, layer_width := 150, layer_height := 150 \<rparr>)"
    using assms(6) by (simp add: resizeLayerFromHandle_def rest origin anchor frame Let_def)
  have nw: "getHandles z (l\<lparr> layer_x := 0, layer_y := 0, layer_width := 150, layer_height := 150 \<rparr>) Hnw
      = \<lparr> pt_x = 0, pt_y = 0 \<rparr>"
    using assms(5,6) by (simp add: getHandles_nw_unrotated)
  show ?thesis using anchor resized nw by simp
qed

theorem resize_se_keeps_nw_anchor_witness:
  "transformingLayer (resizeLayerFromHandle (\<lambda>v. v) 1 \<lparr> pt_x = 150, pt_y = 150 \<rparr> False
       (startLayerTransform 1 squareLayer Hse \<lparr> pt_x = 100, pt_y = 100 \<rparr> idleInteraction))
     = Some (squareLayer\<lparr> layer_width := 150, layer_height := 150 \<rparr>)
   \<and> resizeAnchor (startLayerTransform 1 squareLayer Hse \<lparr> pt_x = 100, pt_y = 100 \<rparr> idleInteraction)
     = \<lparr> pt_x = 0, pt_y = 0 \<rparr>
   \<and> getHandles 1 (squareLayer\<lparr> layer_width := 150, layer_height := 150 \<rparr>) Hnw
     = \<lparr> pt_x = 0, pt_y = 0 \<rparr>"
  using resize_se_keeps_nw_anchor [of squareLayer idleInteraction 1 "\<lparr> pt_x = 100, pt_y = 100 \<rparr>" "\<lambda>v. v"]
  by (simp add: squareLayer_def idleInteraction_def)

subsection \<open>Crop bounds under a drag\<close>

text \<open>
  Claim C1 does not hold of the code. A horizontally mirrored layer in crop mode shows its
  whole image of 100 by 100; the \<open>e\<close> handle is grabbed at \<open>(100, 50)\<close> and dragged
  left to \<open>(-50, 50)\<close>. The bounds at the start of the drag satisfy the invariant; the
  bounds the drag leaves are \<open>x = 150\<close>, \<open>width = -50\<close>: outside the image and of
  negative extent. The minimum-width clamp resets \<open>x\<close> only for handles whose key
  contains \<open>w\<close>, while under \<open>flipH\<close> it is the \<open>e\<close> handles that move \<open>x\<close>.
\<close>

theorem crop_drag_flipped_east_handle:
  "cropBoundsOk 100 100 \<lparr> rc_x = 0, rc_y = 0, rc_width = 100, rc_height = 100 \<rparr>
   \<and> map_option cropBounds
        (transformingLayer
          (resizeLayerFromHandle (\<lambda>v. v) 1 \<lparr> pt_x = - 50, pt_y = 50 \<rparr> False
            (startLayerTransform 1 flippedCropLayer He \<lparr> pt_x = 100, pt_y = 50 \<rparr> idleInteraction)))
       = Some (Some \<lparr> rc_x = 150, rc_y = 0, rc_width = - 50, rc_height = 100 \<rparr>)
   \<and> \<not> cropBoundsOk 100 100 \<lparr> rc_x = 150, rc_y = 0, rc_width = - 50, rc_height = 100 \<rparr>"
  by (simp add: cropBoundsOk_def flippedCropLayer_def squareLayer_def idleInteraction_def
      resizeLayerFromHandle_def startLayerTransform_def getHandles_def handleFrame_def
      cropFromHandle_def imageDelta_def has_def crop_steps Let_def)

lemma edge_fields_unflipped:
  "rc_x (edgeW h False dx b) = (if has h includes_w then rc_x b + dx else rc_x b)"
  "rc_width (edgeW h False dx b) = (if has h includes_w then rc_width b - dx else rc_width b)"
  "rc_y (edgeW h False dx b) = rc_y b" "rc_height (edgeW h False dx b) = rc_height b"
  "rc_x (edgeE h False dx b) = rc_x b"
  "rc_width (edgeE h False dx b) = (if has h includes_e then rc_width b + dx else rc_width b)"
  "rc_y (edgeE h False dx b) = rc_y b" "rc_height (edgeE h False dx b) = rc_height b"
  "rc_y (edgeN h False dy b) = (if has h includes_n then rc_y b + dy else rc_y b)"
  "rc_height (edgeN h False dy b) = (if has h includes_n then rc_height b - dy else rc_height b)"
  "rc_x (edgeN h False dy b) = rc_x b" "rc_width (edgeN h False dy b) = rc_width b"
  "rc_y (edgeS h False dy b) = rc_y b"
  "rc_height (edgeS h False dy b) = (if has h includes_s then rc_height b + dy else rc_height b)"
  "rc_x (edgeS h False dy b) = rc_x b" "rc_width (edgeS h False dy b) = rc_width b"
  by (simp_all add: edgeW_def edgeE_def edgeN_def edgeS_def)

lemma clamp_fields:
  "rc_x (clampMinWidth h ocb b) =
     (if rc_width b < 1 \<and> has h includes_w then rc_x ocb + rc_width ocb - 1 else rc_x b)"
  "rc_width (clampMinWidth h ocb b) = (if rc_width b < 1 then 1 else rc_width b)"
  "rc_y (clampMinWidth h ocb b) = rc_y b" "rc_height (clampMinWidth h ocb b) = rc_height b"
  "rc_y (clampMinHeight h ocb b) =
     (if rc_height b < 1 \<and> has h includes_n then rc_y ocb + rc_height ocb - 1 else rc_y b)"
  "rc_height (clampMinHeight h ocb b) = (if rc_height b < 1 then 1 else rc_height b)"
  "rc_x (clampMinHeight h ocb b) = rc_x b" "rc_width (clampMinHeight h ocb b) = rc_width b"
  "rc_x (clampLeft b) = (if rc_x b < 0 then 0 else rc_x b)"
  "rc_width (clampLeft b) = (if rc_x b < 0 then rc_width b + rc_x b else rc_width b)"
  "rc_y (clampLeft b) = rc_y b" "rc_height (clampLeft b) = rc_height b"
  "rc_y (clampTop b) = (if rc_y b < 0 then 0 else rc_y b)"
  "rc_height (clampTop b) = (if rc_y b < 0 then rc_height b + rc_y b else rc_height b)"
  "rc_x (clampTop b) = rc_x b" "rc_width (clampTop b) = rc_width b"
  "rc_x (clampRight ow b) = rc_x b"
  "rc_width (clampRight ow b) = (if rc_x b + rc_width b > ow then ow - rc_x b else rc_width b)"
  "rc_y (clampRight ow b) = rc_y b" "rc_height (clampRight ow b) = rc_height b"
  "rc_y (clampBottom oh b) = rc_y b"
  "rc_height (clampBottom oh b) = (if rc_y b + rc_height b > oh then oh - rc_y b else rc_height b)"
  "rc_x (clampBottom oh b) = rc_x b" "rc_width (clampBottom oh b) = rc_width b"
  by (simp_all add: clampMinWidth_def clampMinHeight_def clampLeft_def clampTop_def
      clampRight_def clampBottom_def)


lemma handle_axes:
  "\<not> (has h includes_w \<and> has h includes_e)" "\<not> (has h includes_n \<and> has h includes_s)"
proof -
  show "\<not> (has h includes_w \<and> has h includes_e)"
  proof (cases h)
    case None then show ?thesis by (simp add: has_def)
  next
    case (Some k) then show ?thesis by (cases k) (simp_all add: has_def)
  qed
  show "\<not> (has h includes_n \<and> has h includes_s)"
  proof (cases h)
    case None then show ?thesis by (simp add: has_def)
  next
    case (Some k) then show ?thesis by (cases k) (simp_all add: has_def)
  qed
qed

lemma crop_axis_unflipped:
  fixes x0 w0 d lim :: real
  assumes "0 \<le> x0" "1 \<le> w0" "x0 + w0 \<le> lim" "\<not> (mw \<and> me)"
  defines "x1 \<equiv> (if mw then x0 + d else x0)"
    and "w1 \<equiv> (if mw then w0 - d else w0)"
  defines "w2 \<equiv> (if me then w1 + d else w1)"
  defines "x3 \<equiv> (if w2 < 1 \<and> mw then x0 + w0 - 1 else x1)"
    and "w3 \<equiv> (if w2 < 1 then 1 else w2)"
  defines "x4 \<equiv> (if x3 < 0 then 0 else x3)"
    and "w4 \<equiv> (if x3 < 0 then w3 + x3 else w3)"
  defines "w5 \<equiv> (if x4 + w4 > lim then lim - x4 else w4)"
  shows "0 \<le> x4 \<and> 1 \<le> w5 \<and> x4 + w5 \<le> lim"
proof (cases mw)
  case True
  then have e: "\<not> me" using assms(4) by simp
  show ?thesis
    unfolding w5_def w4_def x4_def w3_def x3_def w2_def w1_def x1_def
    using True e assms(1-3) by (simp split: if_splits) 
next
  case False
  show ?thesis
  proof (cases me)
    case True
    show ?thesis
      unfolding w5_def w4_def x4_def w3_def x3_def w2_def w1_def x1_def
      using True False assms(1-3) by (simp split: if_splits)
  next
    case nme: False
    show ?thesis
      unfolding w5_def w4_def x4_def w3_def x3_def w2_def w1_def x1_def
      using nme False assms(1-3) by (simp split: if_splits)
  qed
qed


lemma crop_clamp_unflipped:
  assumes "cropBoundsOk ow oh ocb"
  shows "cropBoundsOk ow oh
     (clampBottom oh (clampRight ow (clampTop (clampLeft
        (clampMinHeight h ocb (clampMinWidth h ocb
          (edgeS h False dy (edgeN h False dy (edgeE h False dx (edgeW h False dx ocb))))))))))"
proof -
  let ?b = "clampBottom oh (clampRight ow (clampTop (clampLeft
        (clampMinHeight h ocb (clampMinWidth h ocb
          (edgeS h False dy (edgeN h False dy (edgeE h False dx (edgeW h False dx ocb)))))))))"
  from assms have o: "0 \<le> rc_x ocb" "1 \<le> rc_width ocb" "rc_x ocb + rc_width ocb \<le> ow"
    "0 \<le> rc_y ocb" "1 \<le> rc_height ocb" "rc_y ocb + rc_height ocb \<le> oh"
    by (simp_all add: cropBoundsOk_def)
  have x: "0 \<le> rc_x ?b \<and> 1 \<le> rc_width ?b \<and> rc_x ?b + rc_width ?b \<le> ow"
    by (simp only: edge_fields_unflipped clamp_fields)
       (rule crop_axis_unflipped [OF o(1) o(2) o(3) handle_axes(1)])
  have y: "0 \<le> rc_y ?b \<and> 1 \<le> rc_height ?b \<and> rc_y ?b + rc_height ?b \<le> oh"
    by (simp only: edge_fields_unflipped clamp_fields)
       (rule crop_axis_unflipped [OF o(4) o(5) o(6) handle_axes(2)])
  show ?thesis using x y unfolding cropBoundsOk_def by blast
qed


text \<open>
  What the clamping does achieve: for a layer that is not mirrored, every drag of every
  handle keeps crop bounds that satisfied the invariant at the start of the drag inside
  the image, with extents of at least 1.
\<close>

lemma resize_crop_unflipped_ok:
  assumes "transformingLayer i = Some l" "transformOrigin i = Some o'"
    and "cropMode l" "\<not> flipH l" "\<not> flipV l"
    and "o_cropBounds o' = Some ocb" "o_originalWidth o' \<noteq> 0" "o_originalHeight o' \<noteq> 0"
    and "cropBoundsOk (o_originalWidth o') (o_originalHeight o') ocb"
  shows "\<exists>l' b. transformingLayer (resizeLayerFromHandle snapToGrid z worldCoords shift i) = Some l'
           \<and> cropBounds l' = Some b
           \<and> cropBoundsOk (o_originalWidth o') (o_originalHeight o') b"
  using assms crop_clamp_unflipped [OF assms(9)]
  by (simp add: resizeLayerFromHandle_def Let_def cropFromHandle_def split: prod.splits)

section \<open>Z-order: properties\<close>

lemma renumber_frame: "r \<notin> set rs \<Longrightarrow> renumber i rs h r = h r"
  by (induction rs arbitrary: i h) auto

lemma renumber_zIndex:
  "distinct rs \<Longrightarrow> map (\<lambda>r. zIndex (renumber i rs h r)) rs = map int [i..<i + length rs]"
proof (induction rs arbitrary: i h)
  case Nil
  then show ?case by simp
next
  case (Cons r rs)
  have "zIndex (renumber (Suc i) rs (h(r := (h r)\<lparr>zIndex := int i\<rparr>)) r) = int i"
    using Cons.prems by (simp add: renumber_frame)
  moreover have "map (\<lambda>r'. zIndex (renumber (Suc i) rs (h(r := (h r)\<lparr>zIndex := int i\<rparr>)) r')) rs
      = map int [Suc i..<Suc i + length rs]"
    using Cons.prems by (intro Cons.IH) simp
  ultimately show ?case by (simp add: upt_rec)
qed

lemma assignZIndex_frame:
  "assignZIndex f i (map Some rs) h = Inr h' \<Longrightarrow> r \<notin> set rs \<Longrightarrow> h' r = h r"
  by (induction rs arbitrary: i h) (auto split: if_splits)

lemma assignZIndex_total: "\<exists>h'. assignZIndex f i (map Some rs) h = Inr h'"
  by (induction rs arbitrary: i h) auto

lemma assignZIndex_zIndex:
  "distinct rs \<Longrightarrow> assignZIndex f i (map Some rs) h = Inr h'
     \<Longrightarrow> map (\<lambda>r. zIndex (h' r)) rs = map f [i..<i + length rs]"
proof (induction rs arbitrary: i h)
  case Nil
  then show ?case by simp
next
  case (Cons r rs)
  let ?h1 = "h(r := (h r)\<lparr>zIndex := f i\<rparr>)"
  from Cons.prems have step: "assignZIndex f (Suc i) (map Some rs) ?h1 = Inr h'" by simp
  from Cons.prems have "r \<notin> set rs" by simp
  with step have "h' r = ?h1 r" by (rule assignZIndex_frame)
  then have "zIndex (h' r) = f i" by simp
  moreover have "map (\<lambda>r. zIndex (h' r)) rs = map f [Suc i..<Suc i + length rs]"
    using Cons.prems step by (intro Cons.IH) simp_all
  ultimately show ?case by (simp add: upt_rec)
qed

lemma sorted_keys_unique:
  fixes key :: "'a \<Rightarrow> int"
  assumes "mset (map key xs) = mset (map int [0..<n])"
  shows "map key (sort_key key xs) = map int [0..<n]"
proof -
  have s: "sorted (map int [0..<n])"
    by (simp add: sorted_map sorted_wrt_mono_rel [OF _ sorted_wrt_upt])
  have "mset (map key (sort_key key xs)) = mset (map int [0..<n])"
    using assms by simp
  moreover have "sorted (map key (sort_key key xs))" by simp
  ultimately have "sort (map int [0..<n]) = map key (sort_key key xs)"
    by (intro properties_for_sort) simp_all
  moreover have "sort (map int [0..<n]) = map int [0..<n]"
    using s by (rule sorted_sort_id)
  ultimately show ?thesis by simp
qed

lemma descending_keys:
  "map (\<lambda>i. int n - 1 - int i) [0..<n] = rev (map int [0..<n])"
  by (rule nth_equalityI) (auto simp: rev_nth)

lemma fuseLayers_contiguous:
  assumes "storeOk s" "fuseLayers env s = Inr s'"
  shows "zIndices s' = map int [0..<length (canvas_layers s')]"
proof -
  obtain minX minY fw fh where fb: "fusedBounds (map (heap s) (selectedLayers s)) = (minX, minY, fw, fh)"
    by (cases "fusedBounds (map (heap s) (selectedLayers s))") auto
  let ?kept = "filter (\<lambda>r. r \<notin> set (selectedLayers s)) (canvas_layers s)"
  let ?new = "nextRef s"
  let ?h1 = "(heap s)(?new := makeFusedLayer env minX minY fw fh
               (Min (set (map (\<lambda>r. zIndex (heap s r)) (selectedLayers s)))))"
  let ?sorted = "sort_key (\<lambda>r. zIndex (?h1 r)) (?kept @ [?new])"
  from assms(1) have d: "distinct (canvas_layers s)" and fresh: "?new \<notin> set (canvas_layers s)"
    by (auto simp: storeOk_def list_all_iff)
  have s': "s' = s\<lparr> heap := renumber 0 ?sorted ?h1, canvas_layers := ?sorted,
                    selectedLayers := [?new], nextRef := Suc ?new \<rparr>"
    using assms(2) fb by (simp add: fuseLayers_def Let_def split: if_splits)
  have "distinct (?kept @ [?new])" using d fresh by simp
  then have "distinct ?sorted" by simp
  then have "map (\<lambda>r. zIndex (renumber 0 ?sorted ?h1 r)) ?sorted = map int [0..<0 + length ?sorted]"
    by (rule renumber_zIndex)
  then show ?thesis by (simp add: zIndices_def s')
qed


lemma indexOf_range:
  "x \<in> set xs \<Longrightarrow> 0 \<le> indexOf xs x \<and> indexOf xs x < int (length xs)"
  by (induction xs) (auto simp: Let_def)

lemma swapElements_in_range:
  assumes "0 \<le> i" "i < int (length p)" "0 \<le> j" "j < int (length p)"
  shows "swapElements (map Some p) i j = map Some (p[nat i := p ! nat j, nat j := p ! nat i])"
  using assms by (simp add: swapElements_def arrayGet_def arraySet_def Let_def map_update)

lemma permOf_swap:
  assumes "permOf layers' arr" "0 \<le> i" "i < int (length layers')" "0 \<le> j" "j < int (length layers')"
  shows "permOf layers' (swapElements arr i j)"
proof -
  from assms(1) obtain p where p: "arr = map Some p" "mset p = mset layers'"
    by (auto simp: permOf_def)
  from p(2) have len: "length p = length layers'" by (rule mset_eq_length)
  have i: "nat i < length p" and j: "nat j < length p" using assms(2-5) len by simp_all
  have "swapElements arr i j = map Some (p[nat i := p ! nat j, nat j := p ! nat i])"
    using assms(2-5) len by (simp add: p(1) swapElements_in_range)
  moreover have "mset (p[nat i := p ! nat j, nat j := p ! nat i]) = mset p"
    using j i by (rule mset_swap)
  ultimately show ?thesis using p(2) unfolding permOf_def by auto
qed

lemma permOf_length: "permOf layers' arr \<Longrightarrow> length arr = length layers'"
  by (auto simp: permOf_def dest: mset_eq_length)

lemma moveUpStep_permOf:
  assumes "permOf layers' arr" "0 \<le> i" "i < int (length layers')"
  shows "permOf layers' (moveUpStep sel arr i)"
  using assms permOf_length [OF assms(1)]
  by (auto simp: moveUpStep_def Let_def intro!: permOf_swap)

lemma moveDownStep_permOf:
  assumes "permOf layers' arr" "0 \<le> i" "i < int (length layers')"
  shows "permOf layers' (moveDownStep sel arr i)"
  using assms permOf_length [OF assms(1)]
  by (auto simp: moveDownStep_def Let_def intro!: permOf_swap)

lemma foldl_moveUpStep_permOf:
  assumes "permOf layers' arr" "\<forall>i\<in>set is. 0 \<le> i \<and> i < int (length layers')"
  shows "permOf layers' (foldl (moveUpStep sel) arr is)"
  using assms by (induction "is" arbitrary: arr) (simp_all add: moveUpStep_permOf)

lemma foldl_moveDownStep_permOf:
  assumes "permOf layers' arr" "\<forall>i\<in>set is. 0 \<le> i \<and> i < int (length layers')"
  shows "permOf layers' (foldl (moveDownStep sel) arr is)"
  using assms by (induction "is" arbitrary: arr) (simp_all add: moveDownStep_permOf)

lemma moveByDirection_permOf:
  assumes "set layersToMove \<subseteq> set layers'"
  shows "permOf layers' (moveByDirection d layersToMove layers')"
proof -
  have base: "permOf layers' (map Some layers')" by (auto simp: permOf_def)
  have rng: "\<forall>i\<in>set (remdups (map (indexOf layers') layersToMove)).
               0 \<le> i \<and> i < int (length layers')"
    using assms indexOf_range [of _ layers'] by auto
  show ?thesis
  proof (cases d)
    case Up
    then show ?thesis
      using foldl_moveUpStep_permOf [OF base, of "rev (sort (remdups (map (indexOf layers') layersToMove)))"] rng
      by (simp add: moveByDirection_def Let_def)
  next
    case Down
    then show ?thesis
      using foldl_moveDownStep_permOf [OF base, of "sort (remdups (map (indexOf layers') layersToMove))"] rng
      by (simp add: moveByDirection_def Let_def)
  qed
qed

lemma reorderLoop_mset:
  "reorderLoop t ltm i ds acc ins = (r, ins') \<Longrightarrow>
     mset r = mset acc + mset (filter (\<lambda>x. x \<notin> set ltm) ds)
              + (if i \<le> t \<and> t < i + int (length ds) then mset ltm else {#})
     \<and> ins' = (ins \<or> (i \<le> t \<and> t < i + int (length ds)))"
proof (induction ds arbitrary: i acc ins)
  case Nil
  then show ?case by auto
next
  case (Cons c ds)
  show ?case
  proof (cases "i = t")
    case True
    let ?r2 = "if c \<notin> set ltm then (acc @ ltm) @ [c] else acc @ ltm"
    from Cons.prems True have "reorderLoop t ltm (i + 1) ds ?r2 True = (r, ins')"
      by (simp add: Let_def)
    from Cons.IH [OF this] True show ?thesis by (auto simp: ac_simps)
  next
    case False
    let ?r2 = "if c \<notin> set ltm then acc @ [c] else acc"
    from Cons.prems False have "reorderLoop t ltm (i + 1) ds ?r2 ins = (r, ins')"
      by (simp add: Let_def)
    from Cons.IH [OF this] False show ?thesis by (auto simp: ac_simps)
  qed
qed

lemma moveToIndex_mset:
  "mset (moveToIndex h t ltm layers')
     = mset (filter (\<lambda>x. x \<notin> set ltm) layers') + mset ltm"
proof -
  let ?ds = "sort_key (\<lambda>r. - zIndex (h r)) layers'"
  obtain r ins' where rl: "reorderLoop t ltm 0 ?ds [] False = (r, ins')"
    by (cases "reorderLoop t ltm 0 ?ds [] False") auto
  from reorderLoop_mset [OF rl]
  have m: "mset r = mset (filter (\<lambda>x. x \<notin> set ltm) ?ds) + (if ins' then mset ltm else {#})"
    by simp
  have f: "mset (filter (\<lambda>x. x \<notin> set ltm) ?ds) = mset (filter (\<lambda>x. x \<notin> set ltm) layers')"
    by (simp only: mset_filter mset_sort)
  show ?thesis using rl m f by (simp add: moveToIndex_def Let_def)
qed

lemma moveToIndex_distinct:
  assumes "distinct layers'" "distinct ltm"
  shows "distinct (moveToIndex h t ltm layers')"
proof -
  have "mset (moveToIndex h t ltm layers') = mset (filter (\<lambda>x. x \<notin> set ltm) layers' @ ltm)"
    by (simp add: moveToIndex_mset)
  moreover have "distinct (filter (\<lambda>x. x \<notin> set ltm) layers' @ ltm)"
    using assms by auto
  ultimately show ?thesis
    using mset_eq_imp_distinct_iff
      [of "moveToIndex h t ltm layers'" "filter (\<lambda>x. x \<notin> set ltm) layers' @ ltm"]
    by simp
qed

lemma moveToIndex_same_layers:
  assumes "distinct ltm" "set ltm \<subseteq> set layers'" "distinct layers'"
  shows "mset (moveToIndex h t ltm layers') = mset layers'"
proof -
  have "mset ltm = mset (filter (\<lambda>x. x \<in> set ltm) layers')"
  proof -
    have "distinct (filter (\<lambda>x. x \<in> set ltm) layers')" using assms(3) by simp
    moreover have "set (filter (\<lambda>x. x \<in> set ltm) layers') = set ltm" using assms(2) by auto
    ultimately show ?thesis
      using set_eq_iff_mset_eq_distinct [of ltm "filter (\<lambda>x. x \<in> set ltm) layers'"] assms(1)
      by simp
  qed
  moreover have "mset (filter (\<lambda>x. x \<notin> set ltm) layers')
      + mset (filter (\<lambda>x. x \<in> set ltm) layers') = mset layers'"
    by (induction layers') simp_all
  ultimately show ?thesis by (simp add: moveToIndex_mset)
qed


lemma assign_then_sort:
  assumes "distinct p"
  shows "\<exists>h'. assignZIndex (\<lambda>i. if b then int (length p) - 1 - int i else int i) 0 (map Some p) h = Inr h'
           \<and> map (\<lambda>r. zIndex (h' r)) (sort_key (\<lambda>r. zIndex (h' r)) p) = map int [0..<length p]"
proof -
  let ?f = "\<lambda>i. if b then int (length p) - 1 - int i else int i"
  obtain h' where h': "assignZIndex ?f 0 (map Some p) h = Inr h'"
    using assignZIndex_total by blast
  have keys: "map (\<lambda>r. zIndex (h' r)) p = map ?f [0..<0 + length p]"
    using assms h' by (rule assignZIndex_zIndex)
  have "mset (map ?f [0..<length p]) = mset (map int [0..<length p])"
  proof (cases b)
    case True
    then have "map ?f [0..<length p] = rev (map int [0..<length p])"
      using descending_keys [of "length p"] by simp
    then show ?thesis by simp
  next
    case False
    then show ?thesis by simp
  qed
  with keys have "mset (map (\<lambda>r. zIndex (h' r)) p) = mset (map int [0..<length p])"
    by simp
  then have "map (\<lambda>r. zIndex (h' r)) (sort_key (\<lambda>r. zIndex (h' r)) p) = map int [0..<length p]"
    by (rule sorted_keys_unique)
  with h' show ?thesis by blast
qed

lemma moveLayers_contiguous:
  assumes ok: "storeOk s" and ne: "layersToMove \<noteq> []"
    and sub: "set layersToMove \<subseteq> set (canvas_layers s)"
    and dis: "opt_direction options = None \<longrightarrow> distinct layersToMove"
    and opt: "opt_direction options \<noteq> None \<or> opt_toIndex options \<noteq> None"
  shows "\<exists>s'. moveLayers layersToMove options s = Inr s'
           \<and> zIndices s' = map int [0..<length (canvas_layers s')]
           \<and> mset (canvas_layers s') = mset (canvas_layers s)"
proof -
  from ok have d: "distinct (canvas_layers s)" by (simp add: storeOk_def)
  let ?b = "opt_toIndex options \<noteq> None"
  have tail: "\<exists>s'. moveLayers layersToMove options s = Inr s'
           \<and> zIndices s' = map int [0..<length (canvas_layers s')]
           \<and> mset (canvas_layers s') = mset (canvas_layers s)"
    if fin: "(case opt_direction options of
                 Some d \<Rightarrow> Some (moveByDirection d layersToMove (canvas_layers s))
               | None \<Rightarrow>
                   (case opt_toIndex options of
                      Some toIndex \<Rightarrow>
                        Some (map Some (moveToIndex (heap s) toIndex layersToMove (canvas_layers s)))
                    | None \<Rightarrow> None)) = Some (map Some p)"
      and p: "mset p = mset (canvas_layers s)" for p
  proof -
    from p d have dp: "distinct p" using mset_eq_imp_distinct_iff by blast
    obtain h' where h': "assignZIndex (\<lambda>i. if ?b then int (length p) - 1 - int i else int i) 0
                            (map Some p) (heap s) = Inr h'"
      and keys: "map (\<lambda>r. zIndex (h' r)) (sort_key (\<lambda>r. zIndex (h' r)) p) = map int [0..<length p]"
      using assign_then_sort [OF dp, of ?b "heap s"] by blast
    have "moveLayers layersToMove options s
          = Inr (s\<lparr> heap := h', canvas_layers := sort_key (\<lambda>r. zIndex (h' r)) p \<rparr>)"
      using ne fin h' by (simp add: moveLayers_def Let_def comp_def)
    then show ?thesis using keys p by (simp add: zIndices_def)
  qed
  show ?thesis
  proof (cases "opt_direction options")
    case (Some dir)
    from moveByDirection_permOf [OF sub, of dir]
    obtain p where "moveByDirection dir layersToMove (canvas_layers s) = map Some p"
      "mset p = mset (canvas_layers s)"
      by (auto simp: permOf_def)
    with Some show ?thesis by (intro tail [of p]) simp_all
  next
    case None
    with opt obtain t where t: "opt_toIndex options = Some t" by auto
    from None dis have dl: "distinct layersToMove" by simp
    have "mset (moveToIndex (heap s) t layersToMove (canvas_layers s)) = mset (canvas_layers s)"
      using dl sub d by (rule moveToIndex_same_layers)
    with None t show ?thesis
      by (intro tail [of "moveToIndex (heap s) t layersToMove (canvas_layers s)"]) simp_all
  qed
qed

lemma contiguous_set:
  assumes "zs = map int [0..<n]"
  shows "distinct zs \<and> set zs = {0..<int n}"
proof -
  have "distinct (map int [0..<n])" by (simp add: distinct_map)
  moreover have "set (map int [0..<n]) = {0..<int n}"
    by (simp add: image_int_atLeastLessThan)
  ultimately show ?thesis using assms by simp
qed


text \<open>
  Claim C3. Take a well-formed layer store. A call of \<open>moveLayers\<close> that reorders
  (a non-empty list of layers of the store, without repetition where \<open>toIndex\<close> is used,
  and a direction or a target index) succeeds and leaves the same layers with
  \<open>zIndex\<close> values \<open>0, ..., N - 1\<close> in store order: no duplicates, no gaps. So does
  every \<open>fuseLayers\<close> that fuses, for the \<open>N\<close> layers that remain.
\<close>

theorem zorder_operations_renumber:
  "(storeOk s \<and> layersToMove \<noteq> [] \<and> set layersToMove \<subseteq> set (canvas_layers s)
      \<and> (opt_direction options = None \<longrightarrow> distinct layersToMove)
      \<and> (opt_direction options \<noteq> None \<or> opt_toIndex options \<noteq> None)
    \<longrightarrow> (\<exists>s'. moveLayers layersToMove options s = Inr s'
              \<and> zIndices s' = map int [0..<length (canvas_layers s')]
              \<and> contiguous s'
              \<and> mset (canvas_layers s') = mset (canvas_layers s)))
   \<and> (storeOk s \<and> fuseLayers env s = Inr t'
    \<longrightarrow> zIndices t' = map int [0..<length (canvas_layers t')] \<and> contiguous t')"
proof (intro conjI impI)
  assume a: "storeOk s \<and> layersToMove \<noteq> [] \<and> set layersToMove \<subseteq> set (canvas_layers s)
      \<and> (opt_direction options = None \<longrightarrow> distinct layersToMove)
      \<and> (opt_direction options \<noteq> None \<or> opt_toIndex options \<noteq> None)"
  have "\<exists>s'. moveLayers layersToMove options s = Inr s'
           \<and> zIndices s' = map int [0..<length (canvas_layers s')]
           \<and> mset (canvas_layers s') = mset (canvas_layers s)"
    by (rule moveLayers_contiguous) (use a in simp_all)
  then obtain s' where s': "moveLayers layersToMove options s = Inr s'"
      "zIndices s' = map int [0..<length (canvas_layers s')]"
      "mset (canvas_layers s') = mset (canvas_layers s)"
    by (elim exE conjE)
  from s'(2) have "contiguous s'"
    using contiguous_set [of "zIndices s'" "length (canvas_layers s')"]
    by (simp add: contiguous_def)
  with s' show "\<exists>s'. moveLayers layersToMove options s = Inr s'
              \<and> zIndices s' = map int [0..<length (canvas_layers s')]
              \<and> contiguous s'
              \<and> mset (canvas_layers s') = mset (canvas_layers s)"
    by blast
next
  assume a: "storeOk s \<and> fuseLayers env s = Inr t'"
  then show z: "zIndices t' = map int [0..<length (canvas_layers t')]"
    using fuseLayers_contiguous [of s env t'] by simp
  then show "contiguous t'"
    using contiguous_set [of "zIndices t'" "length (canvas_layers t')"]
    by (simp add: contiguous_def)
qed


lemma threeLayers_ok: "storeOk threeLayers"
  by (simp add: storeOk_def threeLayers_def)

lemma fuse_threeLayers:
  "map_sum id canvas_layers (fuseLayers workingEnvironment threeLayers) = Inr [3, 2]"
  by (simp add: fuseLayers_def fusedBounds_def layerCorners_def minOf_def maxOf_def
      makeFusedLayer_def threeLayers_def Let_def squareLayer_def workingEnvironment_def)

theorem zorder_operations_renumber_witness:
  "(\<exists>s'. moveLayers [0] \<lparr> opt_direction = Some Up, opt_toIndex = None \<rparr> threeLayers = Inr s'
        \<and> contiguous s' \<and> mset (canvas_layers s') = mset [0, 1, 2])
   \<and> (\<exists>s'. moveLayers [0] \<lparr> opt_direction = None, opt_toIndex = Some 0 \<rparr> threeLayers = Inr s'
        \<and> contiguous s' \<and> mset (canvas_layers s') = mset [0, 1, 2])
   \<and> (\<exists>t'. fuseLayers workingEnvironment threeLayers = Inr t'
        \<and> contiguous t' \<and> canvas_layers t' = [3, 2])"
proof -
  obtain t' where t': "fuseLayers workingEnvironment threeLayers = Inr t'"
    using fuse_threeLayers by (cases "fuseLayers workingEnvironment threeLayers") auto
  have layers3: "canvas_layers threeLayers = [0, 1, 2]" by (simp add: threeLayers_def)
  have up: "\<exists>s'. moveLayers [0] \<lparr> opt_direction = Some Up, opt_toIndex = None \<rparr> threeLayers = Inr s'
        \<and> contiguous s' \<and> mset (canvas_layers s') = mset [0, 1, 2]"
    using zorder_operations_renumber
            [of threeLayers "[0]" "\<lparr> opt_direction = Some Up, opt_toIndex = None \<rparr>"
               workingEnvironment t', THEN conjunct1]
          threeLayers_ok layers3
    by auto
  have to: "\<exists>s'. moveLayers [0] \<lparr> opt_direction = None, opt_toIndex = Some 0 \<rparr> threeLayers = Inr s'
        \<and> contiguous s' \<and> mset (canvas_layers s') = mset [0, 1, 2]"
    using zorder_operations_renumber
            [of threeLayers "[0]" "\<lparr> opt_direction = None, opt_toIndex = Some 0 \<rparr>"
               workingEnvironment t', THEN conjunct1]
          threeLayers_ok layers3
    by auto
  have fuse: "contiguous t'"
    using zorder_operations_renumber
            [of threeLayers "[0]" "\<lparr> opt_direction = None, opt_toIndex = Some 0 \<rparr>"
               workingEnvironment t', THEN conjunct2]
          threeLayers_ok t'
    by simp
  from fuse_threeLayers t' have "canvas_layers t' = [3, 2]" by simp
  with up to fuse t' show ?thesis by simp
qed

section \<open>Adding and pasting layers: properties\<close>











section \<open>Best stale match: properties\<close>

















section \<open>Debounced creation: what a crop drag costs\<close>

text \<open>
  Claim C8 does not hold of the code. The layer has blend area 40 and nothing is cached.
  One drag of a crop handle with two moves, renders 100 ms apart, released at 300 ms: no
  processed image is created during the drag, and the release creates one at once (the
  callback set with delay 0 runs at 300 ms). But every render of the drag, and the two
  renders of the release, found no cache entry and set the debounce timer of the layer
  anew; nothing clears the last one, so at 300 ms it is still in the queue, due at
  1300 ms, and when it fires \<open>createProcessedImage\<close> runs a second time for the key that
  is already cached. Two such drags within a second make three calls.
\<close>

theorem crop_drag_creates_twice:
  "map_option (\<lambda>s. (createdLog s, map fst (processedImageCache s), timerQueue s))
       (run showNumber True 10 oneDragTwoMoves 300 quietCompositor)
     = Some ([(300, ''L'')], [''L_40_0,0,80,100_100_100''],
             [(6, 1300, DebouncedCreation 0 ''L_40_0,0,80,100_100_100'')])
   \<and> map_option createdLog (run showNumber True 10 oneDragTwoMoves 5000 quietCompositor)
     = Some [(300, ''L''), (1300, ''L'')]
   \<and> map_option createdLog (run showNumber True 10 twoDrags 5000 quietCompositor)
     = Some [(200, ''L''), (600, ''L''), (1600, ''L'')]"
  by code_simp

end
